theory Spec2Isabelle
  imports Main
begin

section \<open>Python values\<close>

text \<open>
  A Python \<^verbatim>\<open>str\<close> is a sequence of Unicode code points, and \<^verbatim>\<open>len\<close> counts code
  points. The homograph scan of the security service looks for Cyrillic code points, which
  do not fit into an 8-bit \<^typ>\<open>char\<close>, so a string is modelled as the list of its code
  points. \<open>str ''abc''\<close> is the Python literal \<^verbatim>\<open>'abc'\<close>.
\<close>

type_synonym pystr = "nat list"

abbreviation (input) str :: "string \<Rightarrow> pystr" where
  "str s \<equiv> map of_char s"

text \<open>\<^verbatim>\<open>p in s\<close> for two strings: \<open>p\<close> occurs in \<open>s\<close> as a contiguous run.\<close>

fun startswith :: "pystr \<Rightarrow> pystr \<Rightarrow> bool" where
  "startswith s [] = True"
| "startswith [] (p # ps) = False"
| "startswith (c # cs) (p # ps) = (c = p \<and> startswith cs ps)"

fun str_contains :: "pystr \<Rightarrow> pystr \<Rightarrow> bool" where
  "str_contains [] p = (p = [])"
| "str_contains (c # cs) p = (startswith (c # cs) p \<or> str_contains cs p)"

text \<open>
  \<^verbatim>\<open>str.lower()\<close>. The two code points outside ASCII whose lowercase form holds an
  ASCII character are U+0130 (to \<^verbatim>\<open>i\<close> followed by U+0307) and U+212A, the Kelvin sign
  (to \<^verbatim>\<open>k\<close>). Every other code point outside \<^verbatim>\<open>A-Z\<close> is left as it is: each use of
  \<^verbatim>\<open>lower()\<close> in the source is followed by a test against ASCII-only patterns, which
  cannot tell a non-ASCII code point from its lowercase form.
\<close>

definition lower_cp :: "nat \<Rightarrow> pystr" where
  "lower_cp c =
     (if 65 \<le> c \<and> c \<le> 90 then [c + 32]
      else if c = 304 then [105, 775]
      else if c = 8490 then [107]
      else [c])"

definition lower :: "pystr \<Rightarrow> pystr" where
  "lower s = concat (map lower_cp s)"

text \<open>The character classes \<^verbatim>\<open>[0-9]\<close>, \<^verbatim>\<open>[a-z0-9]\<close> and \<^verbatim>\<open>[a-z0-9-]\<close>.\<close>

definition is_digit :: "nat \<Rightarrow> bool" where
  "is_digit c = (48 \<le> c \<and> c \<le> 57)"

definition is_lower_alnum :: "nat \<Rightarrow> bool" where
  "is_lower_alnum c = ((97 \<le> c \<and> c \<le> 122) \<or> is_digit c)"

definition is_name_char :: "nat \<Rightarrow> bool" where
  "is_name_char c = (is_lower_alnum c \<or> c = 45)"

text \<open>
  The exceptions the modelled code can raise. \<open>AttributeError cls a\<close>: an object of
  class \<open>cls\<close> has no attribute \<open>a\<close>. \<open>TypeError f a\<close>: the call of \<open>f\<close> lacks the
  required argument \<open>a\<close>. \<open>OperandError operator\<close>: the TypeError of an operator applied to
  a value it does not accept. \<open>KeyError k\<close>: a dict has no key \<open>k\<close>. \<open>exc_message\<close> is
  \<^verbatim>\<open>str(e)\<close>, in the wording of CPython 3.10 and later.
\<close>

datatype py_error =
    AttributeError string string
  | TypeError string string
  | OperandError string
  | KeyError string
  | ZeroDivisionError
  | OverflowError

fun exc_message :: "py_error \<Rightarrow> pystr" where
  "exc_message (AttributeError cls a) =
     [39] @ str cls @ [39] @ str '' object has no attribute '' @ [39] @ str a @ [39]"
| "exc_message (TypeError f a) =
     str f @ str ''() missing 1 required positional argument: '' @ [39] @ str a @ [39]"
| "exc_message (OperandError operator) = str ''unsupported operand type(s) for '' @ str operator"
| "exc_message (KeyError k) = [39] @ str k @ [39]"
| "exc_message ZeroDivisionError = str ''division by zero''"
| "exc_message OverflowError = str ''integer division result too large for a float''"

text \<open>
  A Python \<^verbatim>\<open>float\<close> is an IEEE 754 double. \<open>Float m e\<close> is the double of value
  \<open>m * 2 ^ e\<close>; the operations below keep \<open>\<bar>m\<bar> \<le> 2 ^ 53\<close> and \<open>- 1074 \<le> e\<close>, and compute
  with integers only. \<open>bitlen n\<close> is the number of binary digits of \<open>n\<close>, and
  \<open>floor_log2 n d\<close>, for positive \<open>n\<close> and \<open>d\<close>, the greatest \<open>k\<close> with \<open>2 ^ k \<le> n / d\<close>.
  \<open>round_half_even_div a b\<close>, for positive \<open>b\<close>, is the integer nearest to \<open>a / b\<close>, the even
  one of the two on a tie.
\<close>

datatype pyfloat = Float int int

fun bitlen :: "nat \<Rightarrow> nat" where
  "bitlen n = (if n = 0 then 0 else Suc (bitlen (n div 2)))"

declare bitlen.simps [simp del]

definition round_half_even_div :: "int \<Rightarrow> int \<Rightarrow> int" where
  "round_half_even_div a b =
     (let q = a div b; r = a mod b
      in if 2 * r < b then q else if b < 2 * r then q + 1 else if even q then q else q + 1)"

definition floor_log2 :: "nat \<Rightarrow> nat \<Rightarrow> int" where
  "floor_log2 n d =
     (let k = int (bitlen n) - int (bitlen d)
      in if (if 0 \<le> k then d * 2 ^ nat k \<le> n else d \<le> n * 2 ^ nat (- k)) then k else k - 1)"

text \<open>
  \<^verbatim>\<open>a / b\<close> for two \<^verbatim>\<open>int\<close>s: ZeroDivisionError for a zero divisor, else the double
  nearest to the exact quotient (ties to the even mantissa, subnormal below \<open>2 ^ - 1022\<close>),
  and OverflowError when that is beyond the largest double, \<open>(2 ^ 53 - 1) * 2 ^ 971\<close>. The
  sign of a zero is not modelled.
\<close>

definition float_of_quotient :: "int \<Rightarrow> int \<Rightarrow> py_error + pyfloat" where
  "float_of_quotient a b =
     (if b = 0 then Inl ZeroDivisionError
      else if a = 0 then Inr (Float 0 0)
      else
        (let n = nat \<bar>a\<bar>; d = nat \<bar>b\<bar>;
             e = max (floor_log2 n d - 52) (- 1074);
             m = (if 0 \<le> e then round_half_even_div (int n) (int d * 2 ^ nat e)
                  else round_half_even_div (int n * 2 ^ nat (- e)) (int d))
         in if 971 < e \<or> (e = 971 \<and> m = 2 ^ 53) then Inl OverflowError
            else Inr (Float (sgn a * sgn b * m) e)))"

text \<open>
  \<^verbatim>\<open>round(x, 2)\<close> for a float: the exact value of \<open>x\<close> is rounded to two decimal places,
  ties to the even digit, and the result is the double nearest to that decimal number.
\<close>

fun py_round2 :: "pyfloat \<Rightarrow> py_error + pyfloat" where
  "py_round2 (Float m e) =
     float_of_quotient
       (if 0 \<le> e then 100 * m * 2 ^ nat e
        else sgn m * round_half_even_div (100 * \<bar>m\<bar>) (2 ^ nat (- e)))
       100"

text \<open>\<^verbatim>\<open>x * i\<close> and \<^verbatim>\<open>x >= i\<close> for a float \<open>x\<close> and an \<^verbatim>\<open>int\<close> \<open>i\<close>.\<close>

fun float_mul_int :: "pyfloat \<Rightarrow> int \<Rightarrow> py_error + pyfloat" where
  "float_mul_int (Float m e) i =
     (if 0 \<le> e then float_of_quotient (m * i * 2 ^ nat e) 1
      else float_of_quotient (m * i) (2 ^ nat (- e)))"

fun float_ge_int :: "pyfloat \<Rightarrow> int \<Rightarrow> bool" where
  "float_ge_int (Float m e) i = (if 0 \<le> e then i \<le> m * 2 ^ nat e else i * 2 ^ nat (- e) \<le> m)"

text \<open>
  The values held by the dicts the services build and return. \<open>VIsoformat t\<close> is the
  string \<^verbatim>\<open>d.isoformat()\<close> of the datetime \<open>d\<close> read from the clock at \<open>t\<close>, and
  \<open>VDatetime t\<close> that datetime itself; a clock reading is a number of microseconds.
\<close>

datatype SecurityLevel = LOW | MEDIUM | HIGH | CRITICAL

datatype pyval =
    VNone
  | VBool bool
  | VInt int
  | VFloat pyfloat
  | VStr pystr
  | VLevel SecurityLevel
  | VIsoformat int
  | VDatetime int
  | VNginxConfig pystr
  | VList "pyval list"
  | VDict "(string \<times> pyval) list"

text \<open>The truth value of an object in a condition.\<close>

fun truthy :: "pyval \<Rightarrow> bool" where
  "truthy VNone = False"
| "truthy (VBool b) = b"
| "truthy (VInt i) = (i \<noteq> 0)"
| "truthy (VFloat (Float m e)) = (m \<noteq> 0)"
| "truthy (VStr s) = (s \<noteq> [])"
| "truthy (VList xs) = (xs \<noteq> [])"
| "truthy (VDict d) = (d \<noteq> [])"
| "truthy v = True"

text \<open>
  A dict is the list of its items in insertion order, with no key twice.
  \<open>dict_get d k\<close> is \<^verbatim>\<open>d.get(k)\<close>, \<open>getitem d k\<close> is \<^verbatim>\<open>d[k]\<close>, which raises KeyError
  on a missing key, \<open>dict_contains d k\<close> is \<^verbatim>\<open>k in d\<close>, \<open>dict_set d k v\<close> is the
  assignment \<^verbatim>\<open>d[k] = v\<close>, which replaces the value of a key that is present and adds
  the key at the end otherwise, and \<open>dict_del d k\<close> is \<^verbatim>\<open>del d[k]\<close> on a key that is
  present.
\<close>

definition dict_get :: "('k \<times> 'v) list \<Rightarrow> 'k \<Rightarrow> 'v option" where
  "dict_get d k = map_of d k"

definition dict_contains :: "('k \<times> 'v) list \<Rightarrow> 'k \<Rightarrow> bool" where
  "dict_contains d k = (dict_get d k \<noteq> None)"

definition dict_set :: "('k \<times> 'v) list \<Rightarrow> 'k \<Rightarrow> 'v \<Rightarrow> ('k \<times> 'v) list" where
  "dict_set d k v =
     (if dict_contains d k then map (\<lambda>(k', v'). if k' = k then (k', v) else (k', v')) d
      else d @ [(k, v)])"

definition dict_del :: "('k \<times> 'v) list \<Rightarrow> 'k \<Rightarrow> ('k \<times> 'v) list" where
  "dict_del d k = filter (\<lambda>(k', v'). k' \<noteq> k) d"

definition getitem :: "(string \<times> 'v) list \<Rightarrow> string \<Rightarrow> py_error + 'v" where
  "getitem d k = (case dict_get d k of None \<Rightarrow> Inl (KeyError k) | Some v \<Rightarrow> Inr v)"

section \<open>security_service.py\<close>

text \<open>The \<^verbatim>\<open>.value\<close> of a member of the enumeration.\<close>

fun level_value :: "SecurityLevel \<Rightarrow> pystr" where
  "level_value LOW = str ''low''"
| "level_value MEDIUM = str ''medium''"
| "level_value HIGH = str ''high''"
| "level_value CRITICAL = str ''critical''"

datatype ThreatType =
    SUBDOMAIN_TAKEOVER | XSS_ATTEMPT | SQL_INJECTION
  | PHISHING_ATTEMPT | RATE_LIMIT_VIOLATION | SUSPICIOUS_ACTIVITY

fun threat_value :: "ThreatType \<Rightarrow> pystr" where
  "threat_value SUBDOMAIN_TAKEOVER = str ''subdomain_takeover''"
| "threat_value XSS_ATTEMPT = str ''xss_attempt''"
| "threat_value SQL_INJECTION = str ''sql_injection''"
| "threat_value PHISHING_ATTEMPT = str ''phishing_attempt''"
| "threat_value RATE_LIMIT_VIOLATION = str ''rate_limit_violation''"
| "threat_value SUSPICIOUS_ACTIVITY = str ''suspicious_activity''"

subsection \<open>The security score and the security level\<close>

text \<open>
  \<^verbatim>\<open>_calculate_security_score\<close>: the score starts at 100; the four penalties are applied
  in the order of the source, the last one in a loop over the four patterns with one
  \<^verbatim>\<open>pattern in subdomain_name\<close> test each; the result is \<^verbatim>\<open>max(0, score)\<close>.
\<close>

definition low_effort_patterns :: "pystr list" where
  "low_effort_patterns = [str ''test'', str ''demo'', str ''temp'', str ''tmp'']"

definition calculate_security_score :: "pystr \<Rightarrow> int" where
  "calculate_security_score subdomain_name =
     (let score = 100;
          score = (if length subdomain_name < 5 then score - 10 else score);
          score = (if \<not> list_ex is_digit subdomain_name then score - 5 else score);
          score = (if count_list subdomain_name 45 > 2 then score - 15 else score);
          score = foldl (\<lambda>s pattern. if str_contains subdomain_name pattern then s - 20 else s)
                    score low_effort_patterns
      in max 0 score)"

text \<open>\<^verbatim>\<open>_get_security_level\<close>, on an integer score.\<close>

definition get_security_level :: "int \<Rightarrow> SecurityLevel" where
  "get_security_level score =
     (if score \<ge> 80 then LOW
      else if score \<ge> 60 then MEDIUM
      else if score \<ge> 40 then HIGH
      else CRITICAL)"

text \<open>\<^verbatim>\<open>_get_security_recommendations\<close>.\<close>

definition get_security_recommendations :: "int \<Rightarrow> pystr list" where
  "get_security_recommendations score =
     (if score < 80 then [str ''Consider using a more complex subdomain name''] else []) @
     (if score < 60 then [str ''Avoid using common words or patterns''] else []) @
     (if score < 40 then [str ''Security review recommended before deployment''] else [])"

subsection \<open>The state of the service, the audit log\<close>

text \<open>
  The two attributes of the service that change: \<^verbatim>\<open>rate_limit_store\<close>, a dict from a
  client to the list of the times of its admitted attempts, and \<^verbatim>\<open>security_audit_log\<close>,
  a list of dicts.
\<close>

record security_state =
  rate_limit_store :: "(pystr \<times> int list) list"
  security_audit_log :: "(string \<times> pyval) list list"

text \<open>
  The dataclass \<^verbatim>\<open>SecurityAudit\<close>, its fields in the order of the declaration:
  event type, description, severity, client, subdomain, threat type, metadata.
\<close>

datatype SecurityAudit =
  SecurityAudit pystr pystr SecurityLevel pystr "pystr option" "ThreatType option"
    "(string \<times> pyval) list option"

text \<open>
  The generated \<^verbatim>\<open>__init__\<close>. The first four fields have no default; every call in the
  source passes the first three by keyword, and some pass no \<^verbatim>\<open>client_ip\<close>: the fourth
  argument is \<open>None\<close> for such a call, which raises TypeError.
\<close>

definition new_SecurityAudit ::
  "pystr \<Rightarrow> pystr \<Rightarrow> SecurityLevel \<Rightarrow> pystr option \<Rightarrow> pystr option \<Rightarrow> ThreatType option \<Rightarrow>
   (string \<times> pyval) list option \<Rightarrow> py_error + SecurityAudit" where
  "new_SecurityAudit event_type description severity client_ip subdomain threat_type metadata =
     (case client_ip of
        None \<Rightarrow> Inl (TypeError ''SecurityAudit.__init__'' ''client_ip'')
      | Some ip \<Rightarrow>
          Inr (SecurityAudit event_type description severity ip subdomain threat_type metadata))"

text \<open>
  \<^verbatim>\<open>_log_security_audit\<close>, which reads the clock for the timestamp: \<open>t\<close> is that reading.
\<close>

fun log_security_audit :: "int \<Rightarrow> SecurityAudit \<Rightarrow> security_state \<Rightarrow> security_state" where
  "log_security_audit t (SecurityAudit event_type description severity client_ip subdomain
       threat_type metadata) st =
     st\<lparr>security_audit_log := security_audit_log st @
       [[(''timestamp'', VIsoformat t),
         (''event_type'', VStr event_type),
         (''description'', VStr description),
         (''severity'', VStr (level_value severity)),
         (''client_ip'', VStr client_ip),
         (''subdomain'', (case subdomain of None \<Rightarrow> VNone | Some s \<Rightarrow> VStr s)),
         (''threat_type'', (case threat_type of None \<Rightarrow> VNone | Some tt \<Rightarrow> VStr (threat_value tt))),
         (''metadata'', (case metadata of None \<Rightarrow> VNone | Some m \<Rightarrow> VDict m))]]\<rparr>"

subsection \<open>The rate limit\<close>

text \<open>\<^verbatim>\<open>timedelta(hours=1)\<close>, in microseconds.\<close>

definition hour :: int where
  "hour = 3600000000"

text \<open>
  \<^verbatim>\<open>_check_rate_limit\<close>. \<open>current_time\<close> is the reading of the clock at the first line,
  \<open>t_log\<close> the one the audit log takes when the attempt is refused. The refused branch
  returns after the store has been pruned.
\<close>

definition check_rate_limit ::
  "int \<Rightarrow> int \<Rightarrow> pystr \<Rightarrow> security_state \<Rightarrow> (py_error + bool) \<times> security_state" where
  "check_rate_limit current_time t_log client_ip st =
     (let store = (if \<not> dict_contains (rate_limit_store st) client_ip
                   then dict_set (rate_limit_store st) client_ip []
                   else rate_limit_store st)
      in case dict_get store client_ip of
           None \<Rightarrow> (Inl (KeyError ''client_ip''), st\<lparr>rate_limit_store := store\<rparr>)
         | Some stamps \<Rightarrow>
             (let window = filter (\<lambda>time. current_time - time < hour) stamps;
                  st1 = st\<lparr>rate_limit_store := dict_set store client_ip window\<rparr>
              in if length window \<ge> 5 then
                   (case new_SecurityAudit (str ''rate_limit_violation'')
                           (str ''Rate limit exceeded for IP: '' @ client_ip) HIGH
                           (Some client_ip) None (Some RATE_LIMIT_VIOLATION) None of
                      Inl e \<Rightarrow> (Inl e, st1)
                    | Inr audit \<Rightarrow> (Inr False, log_security_audit t_log audit st1))
                 else
                   (Inr True,
                    st1\<lparr>rate_limit_store := dict_set store client_ip (window @ [current_time])\<rparr>)))"

text \<open>
  The window of a client: the times the store holds for it, none for a client the store
  does not know.
\<close>

definition client_window :: "security_state \<Rightarrow> pystr \<Rightarrow> int list" where
  "client_window st client_ip =
     (case dict_get (rate_limit_store st) client_ip of None \<Rightarrow> [] | Some stamps \<Rightarrow> stamps)"

text \<open>
  Rate checks made one after the other by any clients, each request a client with the two
  readings of the clock its check takes: the answers in order, each with its client, and
  the state after the last check.
\<close>

fun rate_checks_by ::
  "(pystr \<times> int \<times> int) list \<Rightarrow> security_state \<Rightarrow>
   (pystr \<times> (py_error + bool)) list \<times> security_state" where
  "rate_checks_by [] st = ([], st)"
| "rate_checks_by ((client_ip, current_time, t_log) # rest) st =
     (case check_rate_limit current_time t_log client_ip st of
        (answer, st1) \<Rightarrow>
          (case rate_checks_by rest st1 of
             (answers, st2) \<Rightarrow> ((client_ip, answer) # answers, st2)))"

text \<open>
  The rate check as the specification words it: the entries older than one hour are
  pruned, so an entry exactly one hour old stays, and the check passes when fewer than
  five entries remain.
\<close>

definition claimed_rate_answer :: "int \<Rightarrow> int list \<Rightarrow> bool" where
  "claimed_rate_answer current_time stamps =
     (length (filter (\<lambda>time. \<not> hour < current_time - time) stamps) < 5)"

subsection \<open>The validation pipeline\<close>

definition blocked_patterns :: "pystr list" where
  "blocked_patterns =
     [str ''admin'', str ''api'', str ''www'', str ''mail'', str ''ftp'', str ''ssh'',
      str ''telnet'', str ''root'', str ''system'', str ''config'', str ''backup'',
      str ''test'', str ''dev'', str ''staging'', str ''beta'', str ''alpha'', str ''local'',
      str ''localhost'', str ''secure'', str ''login'', str ''auth'', str ''oauth'',
      str ''payment'', str ''bank'', str ''paypal'', str ''stripe'', str ''credit'',
      str ''card'']"

definition suspicious_chars :: "pystr list" where
  "suspicious_chars =
     [str ''--'', str ''/*'', str ''*/'', str ''union'', str ''select'', str ''insert'',
      str ''update'', str ''delete'', str ''drop'', str ''create'', str ''alter'',
      str ''exec'', str ''eval'', str ''script'', str ''javascript'', str ''vbscript'',
      str ''onload'', str ''onerror'']"

text \<open>
  The twelve Cyrillic code points of \<^verbatim>\<open>_detect_homograph_attack\<close>: U+0430, U+0435,
  U+043E, U+0440, U+0441, U+0443, U+0445, U+0454, U+0456, U+0457, U+0491, U+04CF.
\<close>

definition suspicious_unicode :: "nat list" where
  "suspicious_unicode =
     [1072, 1077, 1086, 1088, 1089, 1091, 1093, 1108, 1110, 1111, 1169, 1231]"

text \<open>
  \<^verbatim>\<open>re.match(r'^[a-z0-9]([a-z0-9-]*[a-z0-9])?$', s)\<close>. \<open>label_match s\<close>: the pattern
  between the anchors matches the whole of \<open>s\<close>. Without the MULTILINE flag \<^verbatim>\<open>$\<close>
  matches at the end of the string and also just before a newline that ends the string,
  so a label followed by one newline (code point 10) matches too.
\<close>

definition label_match :: "pystr \<Rightarrow> bool" where
  "label_match s =
     (s \<noteq> [] \<and> is_lower_alnum (hd s) \<and> is_lower_alnum (last s) \<and> list_all is_name_char s)"

definition format_match :: "pystr \<Rightarrow> bool" where
  "format_match s = (label_match s \<or> (s \<noteq> [] \<and> last s = 10 \<and> label_match (butlast s)))"

text \<open>
  \<^verbatim>\<open>_validate_input\<close>. The two first checks return a dict and log nothing. The loop over
  the suspicious tokens stops at the first token found; its branch builds a
  \<^verbatim>\<open>SecurityAudit\<close> with no \<^verbatim>\<open>client_ip\<close>.
\<close>

definition validate_input ::
  "int \<Rightarrow> pystr \<Rightarrow> security_state \<Rightarrow> (py_error + (string \<times> pyval) list) \<times> security_state" where
  "validate_input t_log subdomain_name st =
     (if length subdomain_name < 3 \<or> length subdomain_name > 63 then
        (Inr [(''valid'', VBool False),
              (''error'', VStr (str ''Subdomain must be between 3 and 63 characters.'')),
              (''security_level'', VLevel MEDIUM)], st)
      else if \<not> format_match subdomain_name then
        (Inr [(''valid'', VBool False),
              (''error'', VStr (str
                 ''Subdomain must contain only lowercase letters, numbers, and hyphens.'')),
              (''security_level'', VLevel MEDIUM)], st)
      else
        (case find (\<lambda>suspicious. str_contains (lower subdomain_name) suspicious)
                suspicious_chars of
           Some suspicious \<Rightarrow>
             (case new_SecurityAudit (str ''suspicious_input'')
                     (str ''Suspicious characters detected: '' @ suspicious) HIGH
                     None (Some subdomain_name) (Some XSS_ATTEMPT) None of
                Inl e \<Rightarrow> (Inl e, st)
              | Inr audit \<Rightarrow>
                  (Inr [(''valid'', VBool False),
                        (''error'', VStr (str ''Subdomain contains suspicious characters.'')),
                        (''security_level'', VLevel HIGH),
                        (''threat_detected'', VBool True)],
                   log_security_audit t_log audit st))
         | None \<Rightarrow> (Inr [(''valid'', VBool True)], st)))"

text \<open>
  \<^verbatim>\<open>_check_blocked_patterns\<close>. Each pattern is a plain word, so \<^verbatim>\<open>re.search\<close> is a
  substring test. The branch of the first pattern found builds a \<^verbatim>\<open>SecurityAudit\<close>
  with no \<^verbatim>\<open>client_ip\<close>.
\<close>

definition check_blocked_patterns ::
  "int \<Rightarrow> pystr \<Rightarrow> security_state \<Rightarrow> (py_error + bool) \<times> security_state" where
  "check_blocked_patterns t_log subdomain_name st =
     (case find (\<lambda>pattern. str_contains (lower subdomain_name) pattern) blocked_patterns of
        Some pattern \<Rightarrow>
          (case new_SecurityAudit (str ''blocked_pattern'')
                  (str ''Blocked pattern detected: '' @ pattern) MEDIUM
                  None (Some subdomain_name) None None of
             Inl e \<Rightarrow> (Inl e, st)
           | Inr audit \<Rightarrow> (Inr True, log_security_audit t_log audit st))
      | None \<Rightarrow> (Inr False, st))"

text \<open>\<^verbatim>\<open>_detect_homograph_attack\<close>, built like the scan before it.\<close>

definition detect_homograph_attack ::
  "int \<Rightarrow> pystr \<Rightarrow> security_state \<Rightarrow> (py_error + bool) \<times> security_state" where
  "detect_homograph_attack t_log subdomain_name st =
     (case find (\<lambda>char. char \<in> set subdomain_name) suspicious_unicode of
        Some char \<Rightarrow>
          (case new_SecurityAudit (str ''homograph_attack'')
                  (str ''Potential homograph attack detected'') HIGH
                  None (Some subdomain_name) (Some PHISHING_ATTEMPT) None of
             Inl e \<Rightarrow> (Inl e, st)
           | Inr audit \<Rightarrow> (Inr True, log_security_audit t_log audit st))
      | None \<Rightarrow> (Inr False, st))"

text \<open>
  The body of the \<^verbatim>\<open>try\<close> of \<^verbatim>\<open>validate_subdomain_security\<close>: the rate check, the
  input validation, the two scans, then the score, the audit event of the validation and
  the dict of an accepted name. An exception leaves the body at once, with the state as
  it is then. On each path through the body at most one audit event is logged, and
  \<open>t_log\<close> is the reading of the clock it takes.
\<close>

definition validate_subdomain_security_try ::
  "int \<Rightarrow> int \<Rightarrow> pystr \<Rightarrow> pystr \<Rightarrow> security_state \<Rightarrow>
   (py_error + (string \<times> pyval) list) \<times> security_state" where
  "validate_subdomain_security_try current_time t_log subdomain_name client_ip st =
     (case check_rate_limit current_time t_log client_ip st of
        (Inl e, st1) \<Rightarrow> (Inl e, st1)
      | (Inr allowed, st1) \<Rightarrow>
     if \<not> allowed then
       (Inr [(''valid'', VBool False),
             (''error'', VStr (str ''Rate limit exceeded. Please try again later.'')),
             (''security_level'', VLevel CRITICAL),
             (''threat_detected'', VBool True)], st1)
     else
     (case validate_input t_log subdomain_name st1 of
        (Inl e, st2) \<Rightarrow> (Inl e, st2)
      | (Inr validation_result, st2) \<Rightarrow>
     (case getitem validation_result ''valid'' of
        Inl e \<Rightarrow> (Inl e, st2)
      | Inr is_valid \<Rightarrow>
     if \<not> truthy is_valid then (Inr validation_result, st2)
     else
     (case check_blocked_patterns t_log subdomain_name st2 of
        (Inl e, st3) \<Rightarrow> (Inl e, st3)
      | (Inr blocked, st3) \<Rightarrow>
     if blocked then
       (Inr [(''valid'', VBool False),
             (''error'', VStr (str ''Subdomain name contains blocked patterns.'')),
             (''security_level'', VLevel HIGH),
             (''threat_detected'', VBool True)], st3)
     else
     (case detect_homograph_attack t_log subdomain_name st3 of
        (Inl e, st4) \<Rightarrow> (Inl e, st4)
      | (Inr homograph, st4) \<Rightarrow>
     if homograph then
       (Inr [(''valid'', VBool False),
             (''error'', VStr (str ''Subdomain name contains suspicious characters.'')),
             (''security_level'', VLevel HIGH),
             (''threat_detected'', VBool True)], st4)
     else
     (let security_score = calculate_security_score subdomain_name
      in case new_SecurityAudit (str ''subdomain_validation'')
                (str ''Subdomain validation for: '' @ subdomain_name) LOW
                (Some client_ip) (Some subdomain_name) None
                (Some [(''security_score'', VInt security_score)]) of
           Inl e \<Rightarrow> (Inl e, st4)
         | Inr audit \<Rightarrow>
             (Inr [(''valid'', VBool True),
                   (''security_score'', VInt security_score),
                   (''security_level'', VLevel (get_security_level security_score)),
                   (''recommendations'',
                      VList (map VStr (get_security_recommendations security_score)))],
              log_security_audit t_log audit st4)))))))"

text \<open>
  \<^verbatim>\<open>validate_subdomain_security\<close>: the body, and the \<^verbatim>\<open>except Exception\<close> clause, which
  returns a fixed dict and logs no audit event.
\<close>

definition validate_subdomain_security ::
  "int \<Rightarrow> int \<Rightarrow> pystr \<Rightarrow> pystr \<Rightarrow> security_state \<Rightarrow> (string \<times> pyval) list \<times> security_state" where
  "validate_subdomain_security current_time t_log subdomain_name client_ip st =
     (case validate_subdomain_security_try current_time t_log subdomain_name client_ip st of
        (Inr result, st') \<Rightarrow> (result, st')
      | (Inl e, st') \<Rightarrow>
          ([(''valid'', VBool False),
            (''error'', VStr (str ''Security validation failed.'')),
            (''security_level'', VLevel CRITICAL),
            (''threat_detected'', VBool True)], st'))"

subsection \<open>Operators on dynamic values\<close>

text \<open>
  \<open>bind_err\<close> runs a computation that may raise and passes its value on.
  \<open>get_or d k v\<close> is \<^verbatim>\<open>d.get(k, v)\<close>. \<open>py_int\<close> is the integer an \<^verbatim>\<open>int\<close> or a \<^verbatim>\<open>bool\<close>
  stands for in arithmetic, \<open>py_sum\<close> is \<^verbatim>\<open>sum\<close> over such values, and \<open>py_lt_int\<close>,
  \<open>py_ge_int\<close> compare a number with an \<^verbatim>\<open>int\<close>.
\<close>

definition bind_err :: "py_error + 'a \<Rightarrow> ('a \<Rightarrow> py_error + 'b) \<Rightarrow> py_error + 'b" where
  "bind_err r f = (case r of Inl e \<Rightarrow> Inl e | Inr a \<Rightarrow> f a)"

definition get_or :: "(string \<times> pyval) list \<Rightarrow> string \<Rightarrow> pyval \<Rightarrow> pyval" where
  "get_or d k v = (case dict_get d k of None \<Rightarrow> v | Some w \<Rightarrow> w)"

fun py_int :: "string \<Rightarrow> pyval \<Rightarrow> py_error + int" where
  "py_int operator (VInt i) = Inr i"
| "py_int operator (VBool b) = Inr (if b then 1 else 0)"
| "py_int operator v = Inl (OperandError operator)"

fun py_sum :: "pyval list \<Rightarrow> py_error + int" where
  "py_sum [] = Inr 0"
| "py_sum (v # vs) =
     bind_err (py_sum vs) (\<lambda>total. bind_err (py_int ''+'' v) (\<lambda>i. Inr (total + i)))"

fun py_lt_int :: "pyval \<Rightarrow> int \<Rightarrow> py_error + bool" where
  "py_lt_int (VFloat x) n = Inr (\<not> float_ge_int x n)"
| "py_lt_int v n = bind_err (py_int ''<'' v) (\<lambda>i. Inr (i < n))"

fun py_ge_int :: "pyval \<Rightarrow> int \<Rightarrow> py_error + bool" where
  "py_ge_int (VFloat x) n = Inr (float_ge_int x n)"
| "py_ge_int v n = bind_err (py_int ''>='' v) (\<lambda>i. Inr (i \<ge> n))"

subsection \<open>The isolated environment and the certificate check\<close>

text \<open>
  \<^verbatim>\<open>create_isolated_environment\<close>. \<open>security_token\<close> is the string
  \<^verbatim>\<open>secrets.token_urlsafe(32)\<close> returns. The audit event is built with no \<^verbatim>\<open>client_ip\<close>;
  the \<^verbatim>\<open>except\<close> clause of the function turns the exception into a dict.
\<close>

definition create_isolated_environment ::
  "pystr \<Rightarrow> int \<Rightarrow> pystr \<Rightarrow> pystr \<Rightarrow> security_state \<Rightarrow> (string \<times> pyval) list \<times> security_state" where
  "create_isolated_environment security_token t_log deployment_path project_id st =
     (let isolated_path = deployment_path @ str ''/isolated/'' @ project_id;
          security_headers =
            [(''X-Frame-Options'', VStr (str ''DENY'')),
             (''X-Content-Type-Options'', VStr (str ''nosniff'')),
             (''X-XSS-Protection'', VStr (str ''1; mode=block'')),
             (''Referrer-Policy'', VStr (str ''strict-origin-when-cross-origin'')),
             (''Content-Security-Policy'', VStr (str ''default-src '' @ [39] @ str ''self'' @
                [39] @ str ''; script-src '' @ [39] @ str ''self'' @ [39] @ str '' '' @ [39] @
                str ''unsafe-inline'' @ [39])),
             (''Strict-Transport-Security'', VStr (str ''max-age=31536000; includeSubDomains''))];
          resource_limits =
            [(''max_memory'', VStr (str ''512MB'')),
             (''max_cpu'', VStr (str ''50%'')),
             (''max_connections'', VInt 100),
             (''timeout'', VInt 30)]
      in case new_SecurityAudit (str ''environment_creation'')
                (str ''Isolated environment created for project: '' @ project_id) LOW
                None None None
                (Some [(''isolated_path'', VStr isolated_path),
                       (''security_token'', VStr (take 8 security_token @ str ''...'')),
                       (''resource_limits'', VDict resource_limits)]) of
           Inl e \<Rightarrow> ([(''success'', VBool False), (''error'', VStr (exc_message e))], st)
         | Inr audit \<Rightarrow>
             ([(''success'', VBool True),
               (''isolated_path'', VStr isolated_path),
               (''security_token'', VStr security_token),
               (''security_headers'', VDict security_headers),
               (''resource_limits'', VDict resource_limits)],
              log_security_audit t_log audit st))"

text \<open>\<^verbatim>\<open>_get_certificate_info\<close>, a fixed dict but for the subject.\<close>

definition get_certificate_info :: "pystr \<Rightarrow> (string \<times> pyval) list" where
  "get_certificate_info domain =
     [(''valid'', VBool True),
      (''days_until_expiry'', VInt 45),
      (''cipher_strength'', VInt 256),
      (''san_valid'', VBool True),
      (''weak_protocols'', VList []),
      (''issuer'', VStr (str ''Let'' @ [39] @ str ''s Encrypt'')),
      (''subject'', VStr (str ''*.'' @ domain))]"

text \<open>\<^verbatim>\<open>_get_ssl_recommendations\<close>, which reads the five checks by subscript.\<close>

definition get_ssl_recommendations :: "(string \<times> pyval) list \<Rightarrow> py_error + pystr list" where
  "get_ssl_recommendations security_checks =
     bind_err (getitem security_checks ''certificate_valid'') (\<lambda>certificate_valid.
     bind_err (getitem security_checks ''expires_soon'') (\<lambda>expires_soon.
     bind_err (getitem security_checks ''strong_cipher'') (\<lambda>strong_cipher.
     bind_err (getitem security_checks ''proper_san'') (\<lambda>proper_san.
     bind_err (getitem security_checks ''no_weak_protocols'') (\<lambda>no_weak_protocols.
       Inr ((if \<not> truthy certificate_valid
             then [str ''SSL certificate is invalid or expired''] else []) @
            (if truthy expires_soon
             then [str ''SSL certificate expires soon - renewal needed''] else []) @
            (if \<not> truthy strong_cipher then [str ''Weak cipher suite detected''] else []) @
            (if \<not> truthy proper_san
             then [str ''Subject Alternative Name validation failed''] else []) @
            (if truthy no_weak_protocols
             then [str ''Weak SSL/TLS protocols detected''] else [])))))))"

text \<open>\<^verbatim>\<open>_get_security_level\<close> on a float score, with the thresholds of the integer case.\<close>

definition get_security_level_float :: "pyfloat \<Rightarrow> SecurityLevel" where
  "get_security_level_float score =
     (if float_ge_int score 80 then LOW
      else if float_ge_int score 60 then MEDIUM
      else if float_ge_int score 40 then HIGH
      else CRITICAL)"

text \<open>
  The body of the \<^verbatim>\<open>try\<close> of \<^verbatim>\<open>verify_wildcard_ssl_security\<close> up to the audit event:
  the certificate, the five checks, the score \<^verbatim>\<open>sum(...) / len(...) * 100\<close> and the
  \<^verbatim>\<open>SecurityAudit\<close>, which is built with no \<^verbatim>\<open>client_ip\<close>.
\<close>

definition ssl_security_checks ::
  "pystr \<Rightarrow> py_error + ((string \<times> pyval) list \<times> (string \<times> pyval) list \<times> pyfloat \<times> SecurityAudit)" where
  "ssl_security_checks domain =
     (let cert_info = get_certificate_info domain
      in bind_err (py_lt_int (get_or cert_info ''days_until_expiry'' (VInt 0)) 30) (\<lambda>expires_soon.
         bind_err (py_ge_int (get_or cert_info ''cipher_strength'' (VInt 0)) 128) (\<lambda>strong_cipher.
         (let security_checks =
                [(''certificate_valid'', get_or cert_info ''valid'' (VBool False)),
                 (''expires_soon'', VBool expires_soon),
                 (''strong_cipher'', VBool strong_cipher),
                 (''proper_san'', get_or cert_info ''san_valid'' (VBool False)),
                 (''no_weak_protocols'',
                    VBool (get_or cert_info ''weak_protocols'' (VList []) = VList []))]
          in bind_err (py_sum (map snd security_checks)) (\<lambda>passed.
             bind_err (float_of_quotient passed (int (length security_checks))) (\<lambda>ratio.
             bind_err (float_mul_int ratio 100) (\<lambda>security_score.
             bind_err (new_SecurityAudit (str ''ssl_verification'')
                         (str ''SSL verification for domain: '' @ domain)
                         (get_security_level_float security_score) None None None
                         (Some [(''certificate_info'', VDict cert_info),
                                (''security_checks'', VDict security_checks),
                                (''security_score'', VFloat security_score)])) (\<lambda>audit.
               Inr (cert_info, security_checks, security_score, audit)))))))))"

text \<open>
  \<^verbatim>\<open>verify_wildcard_ssl_security\<close>: the rest of the body, and the \<^verbatim>\<open>except\<close> clause.
\<close>

definition verify_wildcard_ssl_security ::
  "int \<Rightarrow> pystr \<Rightarrow> security_state \<Rightarrow> (string \<times> pyval) list \<times> security_state" where
  "verify_wildcard_ssl_security t_log domain st =
     (case ssl_security_checks domain of
        Inl e \<Rightarrow> ([(''secure'', VBool False), (''error'', VStr (exc_message e))], st)
      | Inr (cert_info, security_checks, security_score, audit) \<Rightarrow>
          (let st1 = log_security_audit t_log audit st
           in case get_ssl_recommendations security_checks of
                Inl e \<Rightarrow> ([(''secure'', VBool False), (''error'', VStr (exc_message e))], st1)
              | Inr recommendations \<Rightarrow>
                  ([(''secure'', VBool (float_ge_int security_score 80)),
                    (''security_score'', VFloat security_score),
                    (''certificate_info'', VDict cert_info),
                    (''security_checks'', VDict security_checks),
                    (''recommendations'', VList (map VStr recommendations))], st1)))"

section \<open>secure_deployment_service.py\<close>

text \<open>
  The module imports the name \<^verbatim>\<open>security_service\<close> from the module of that name: the
  instance of \<^verbatim>\<open>SecurityService\<close> built at its last line. An attribute read through that
  name is looked up on the instance and on its class, which have the attributes below
  (and those every object has); the names \<^verbatim>\<open>secrets\<close> and \<^verbatim>\<open>SecurityAudit\<close> belong to the
  module, not to the instance.
\<close>

definition SecurityService_attributes :: "string list" where
  "SecurityService_attributes =
     [''blocked_patterns'', ''suspicious_chars'', ''rate_limit_store'', ''security_audit_log'',
      ''validate_subdomain_security'', ''_check_rate_limit'', ''_validate_input'',
      ''_check_blocked_patterns'', ''_detect_homograph_attack'', ''_calculate_security_score'',
      ''_get_security_level'', ''_get_security_recommendations'',
      ''create_isolated_environment'', ''verify_wildcard_ssl_security'',
      ''_get_certificate_info'', ''_get_ssl_recommendations'', ''_log_security_audit'',
      ''get_security_report'', ''_get_threat_summary'']"

definition security_service_getattr :: "string \<Rightarrow> py_error + unit" where
  "security_service_getattr a =
     (if a \<in> set SecurityService_attributes then Inr ()
      else Inl (AttributeError ''SecurityService'' a))"

text \<open>
  The state of the two services: the security service above, and \<^verbatim>\<open>active_subdomains\<close>,
  the dict from a subdomain name to the dict of its deployment. (\<^verbatim>\<open>deployment_configs\<close>
  is never read or written.)
\<close>

record deployment_state =
  security :: security_state
  active_subdomains :: "(pystr \<times> (string \<times> pyval) list) list"

definition base_domain :: pystr where
  "base_domain = str ''webai.studio''"

definition wildcard_cert_domain :: pystr where
  "wildcard_cert_domain = str ''*.'' @ base_domain"

text \<open>
  The readings of the clock one call of \<^verbatim>\<open>create_secure_subdomain\<close> can take, one for each
  place of the source that reads it.
\<close>

record clock =
  t_rate_check :: int
  t_validation_log :: int
  t_environment_log :: int
  t_ssl_log :: int
  t_deployment_time :: int
  t_created_at :: int
  t_deployment_log :: int

text \<open>
  \<^verbatim>\<open>_generate_secure_subdomain\<close>. \<open>token\<close> is what the expression
  \<^verbatim>\<open>security_service.secrets.token_urlsafe(4)\<close> evaluates to, a string or an exception;
  \<open>security_service_token_urlsafe\<close> below is that expression. The name is cleaned before
  the expression is evaluated. A candidate that is a key of \<^verbatim>\<open>active_subdomains\<close> is
  replaced by the candidate followed by \<^verbatim>\<open>2\<close>.
\<close>

definition security_service_token_urlsafe :: "pystr \<Rightarrow> py_error + pystr" where
  "security_service_token_urlsafe random_token =
     bind_err (security_service_getattr ''secrets'') (\<lambda>_. Inr random_token)"

definition generate_secure_subdomain ::
  "py_error + pystr \<Rightarrow> pystr \<Rightarrow> deployment_state \<Rightarrow> py_error + pystr" where
  "generate_secure_subdomain token business_name st =
     (let clean_name = filter is_lower_alnum (lower business_name)
      in bind_err token (\<lambda>tok.
         (let random_suffix = take 6 tok;
              clean_name = (if length clean_name < 3 then str ''site'' @ clean_name
                            else clean_name);
              subdomain = clean_name @ random_suffix;
              subdomain = (if dict_contains (active_subdomains st) subdomain
                           then clean_name @ random_suffix @ str ''2'' else subdomain)
          in Inr subdomain)))"

text \<open>\<^verbatim>\<open>_configure_wildcard_ssl\<close>; its \<^verbatim>\<open>except\<close> clause returns a dict.\<close>

definition configure_wildcard_ssl ::
  "int \<Rightarrow> pystr \<Rightarrow> security_state \<Rightarrow> (string \<times> pyval) list \<times> security_state" where
  "configure_wildcard_ssl t_log subdomain_name st =
     (case verify_wildcard_ssl_security t_log base_domain st of
        (ssl_verification, st1) \<Rightarrow>
          (case bind_err (getitem ssl_verification ''secure'') (\<lambda>secure.
                  if \<not> truthy secure then
                    Inr [(''success'', VBool False),
                         (''error'', VStr (str ''SSL certificate validation failed'')),
                         (''recommendations'',
                            get_or ssl_verification ''recommendations'' (VList []))]
                  else
                    bind_err (getitem ssl_verification ''security_score'') (\<lambda>security_score.
                      Inr [(''success'', VBool True),
                           (''ssl_config'', VDict
                              [(''certificate_domain'', VStr wildcard_cert_domain),
                               (''subdomain'', VStr subdomain_name),
                               (''full_domain'', VStr (subdomain_name @ str ''.'' @ base_domain)),
                               (''ssl_protocols'',
                                  VList [VStr (str ''TLSv1.2''), VStr (str ''TLSv1.3'')]),
                               (''cipher_suite'', VStr (str ''ECDHE-RSA-AES256-GCM-SHA384'')),
                               (''hsts_enabled'', VBool True),
                               (''hsts_max_age'', VInt 31536000),
                               (''include_subdomains'', VBool True)]),
                           (''security_score'', security_score)])) of
             Inl e \<Rightarrow>
               ([(''success'', VBool False),
                 (''error'', VStr (str ''SSL configuration failed: '' @ exc_message e))], st1)
           | Inr ssl_config \<Rightarrow> (ssl_config, st1)))"

text \<open>
  \<^verbatim>\<open>_setup_security_configuration\<close>: the ten headers, the nginx configuration and the
  level. \<open>VNginxConfig s\<close> stands for the text of the nginx template of the source filled
  in for the subdomain \<open>s\<close>; no modelled code reads that text.
\<close>

definition security_headers_config :: "(string \<times> pyval) list" where
  "security_headers_config =
     [(''X-Frame-Options'', VStr (str ''DENY'')),
      (''X-Content-Type-Options'', VStr (str ''nosniff'')),
      (''X-XSS-Protection'', VStr (str ''1; mode=block'')),
      (''Referrer-Policy'', VStr (str ''strict-origin-when-cross-origin'')),
      (''Content-Security-Policy'', VStr (str ''default-src '' @ [39] @ str ''self'' @ [39] @
         str ''; script-src '' @ [39] @ str ''self'' @ [39] @ str '' '' @ [39] @
         str ''unsafe-inline'' @ [39] @ str ''; style-src '' @ [39] @ str ''self'' @ [39] @
         str '' '' @ [39] @ str ''unsafe-inline'' @ [39] @ str ''; img-src '' @ [39] @
         str ''self'' @ [39] @ str '' data: https:; font-src '' @ [39] @ str ''self'' @ [39] @
         str '' https:;'')),
      (''Strict-Transport-Security'',
         VStr (str ''max-age=31536000; includeSubDomains; preload'')),
      (''Permissions-Policy'', VStr (str ''geolocation=(), microphone=(), camera=()'')),
      (''X-Permitted-Cross-Domain-Policies'', VStr (str ''none'')),
      (''X-Download-Options'', VStr (str ''noopen'')),
      (''X-DNS-Prefetch-Control'', VStr (str ''off''))]"

definition setup_security_configuration :: "pystr \<Rightarrow> (string \<times> pyval) list" where
  "setup_security_configuration subdomain_name =
     [(''headers'', VDict security_headers_config),
      (''nginx_config'', VNginxConfig subdomain_name),
      (''security_level'', VLevel HIGH)]"

text \<open>
  \<open>bind_st\<close> passes on the value and the state of a step that did not raise; a step
  that raised ends the sequence with the state it left. \<open>py_str\<close> is the string a value
  must be to be sliced, \<open>py_get v k d\<close> is \<^verbatim>\<open>v.get(k, d)\<close> on a value that must be a dict.
\<close>

definition bind_st ::
  "(py_error + 'a) \<times> 's \<Rightarrow> ('a \<Rightarrow> 's \<Rightarrow> (py_error + 'b) \<times> 's) \<Rightarrow> (py_error + 'b) \<times> 's" where
  "bind_st r f = (case r of (Inl e, s) \<Rightarrow> (Inl e, s) | (Inr a, s) \<Rightarrow> f a s)"

fun py_str :: "pyval \<Rightarrow> py_error + pystr" where
  "py_str (VStr s) = Inr s"
| "py_str v = Inl (OperandError ''[]'')"


text \<open>
  \<^verbatim>\<open>_run_security_scan\<close>: the six results are literals, and the result of the rate
  limiting is \<^verbatim>\<open>configured\<close>, which is not \<^verbatim>\<open>passed\<close>.
\<close>

definition scan_results :: "(string \<times> pystr) list" where
  "scan_results =
     [(''vulnerability_scan'', str ''passed''),
      (''ssl_verification'', str ''passed''),
      (''header_security'', str ''passed''),
      (''content_security'', str ''passed''),
      (''rate_limiting'', str ''configured''),
      (''isolation_check'', str ''passed'')]"

definition run_security_scan :: "pystr \<Rightarrow> (string \<times> pyval) list" where
  "run_security_scan subdomain_name =
     (let issues = map (\<lambda>(check, result). str check @ str '': '' @ result)
                     (filter (\<lambda>(check, result). result \<noteq> str ''passed'') scan_results)
      in [(''passed'', VBool (length issues = 0)),
          (''issues'', VList (map VStr issues)),
          (''scan_results'', VDict (map (\<lambda>(check, result). (check, VStr result)) scan_results)),
          (''security_score'', VInt (if length issues = 0 then 95 else 85))])"

text \<open>
  \<^verbatim>\<open>_deploy_to_secure_environment\<close>; \<open>t\<close> is the reading of the clock for the deployment
  time. The \<^verbatim>\<open>except\<close> clause returns a dict.
\<close>

definition deployment_steps :: "pyval list" where
  "deployment_steps =
     [VStr (str ''Validating security configuration''),
      VStr (str ''Creating isolated environment''),
      VStr (str ''Configuring SSL certificate''),
      VStr (str ''Setting up security headers''),
      VStr (str ''Deploying application''),
      VStr (str ''Running security scans''),
      VStr (str ''Activating subdomain'')]"

definition deploy_to_secure_environment ::
  "int \<Rightarrow> pystr \<Rightarrow> pystr \<Rightarrow> (string \<times> pyval) list \<Rightarrow> (string \<times> pyval) list \<Rightarrow>
   (string \<times> pyval) list" where
  "deploy_to_secure_environment t project_id subdomain_name isolated_env security_config =
     (let security_scan_result = run_security_scan subdomain_name
      in case bind_err (getitem security_scan_result ''passed'') (\<lambda>passed.
                if \<not> truthy passed then
                  bind_err (getitem security_scan_result ''issues'') (\<lambda>issues.
                    Inr [(''success'', VBool False),
                         (''error'', VStr (str ''Security scan failed'')),
                         (''security_issues'', issues)])
                else
                  bind_err (getitem isolated_env ''isolated_path'') (\<lambda>isolated_path.
                  bind_err (getitem isolated_env ''security_token'') (\<lambda>security_token.
                  bind_err (py_str security_token) (\<lambda>token.
                  bind_err (getitem isolated_env ''resource_limits'') (\<lambda>resource_limits.
                    Inr [(''success'', VBool True),
                         (''deployment_steps'', VList deployment_steps),
                         (''security_scan'', VDict security_scan_result),
                         (''deployment_time'', VIsoformat t),
                         (''environment_info'', VDict
                            [(''isolated_path'', isolated_path),
                             (''security_token'', VStr (take 8 token @ str ''...'')),
                             (''resource_limits'', resource_limits)])]))))) of
           Inl e \<Rightarrow>
             [(''success'', VBool False),
              (''error'', VStr (str ''Deployment failed: '' @ exc_message e))]
         | Inr deployment_result \<Rightarrow> deployment_result)"

text \<open>
  The block of \<^verbatim>\<open>create_secure_subdomain\<close> under \<^verbatim>\<open>if deployment_result['success']\<close>:
  the assignment to \<^verbatim>\<open>active_subdomains\<close>, then the audit event, whose class is read as
  \<^verbatim>\<open>security_service.SecurityAudit\<close>.
\<close>

definition register_deployment ::
  "clock \<Rightarrow> pystr \<Rightarrow> pystr \<Rightarrow> pystr \<Rightarrow> (string \<times> pyval) list \<Rightarrow> (string \<times> pyval) list \<Rightarrow>
   (string \<times> pyval) list \<Rightarrow> deployment_state \<Rightarrow> (py_error + unit) \<times> deployment_state" where
  "register_deployment clk project_id subdomain_name client_ip security_validation ssl_config
       security_config st =
     bind_st (getitem security_validation ''security_score'', st) (\<lambda>security_score st.
     bind_st (getitem ssl_config ''success'', st) (\<lambda>ssl_configured st.
     bind_st (getitem security_config ''headers'', st) (\<lambda>headers st.
     bind_st (Inr (), st\<lparr>active_subdomains := dict_set (active_subdomains st) subdomain_name
                  [(''project_id'', VStr project_id),
                   (''created_at'', VDatetime (t_created_at clk)),
                   (''security_score'', security_score),
                   (''ssl_configured'', ssl_configured),
                   (''security_headers'', headers)]\<rparr>) (\<lambda>_ st.
     bind_st (security_service_getattr ''_log_security_audit'', st) (\<lambda>_ st.
     bind_st (security_service_getattr ''SecurityAudit'', st) (\<lambda>_ st.
     bind_st (new_SecurityAudit (str ''secure_deployment'')
                (str ''Secure deployment completed: '' @ subdomain_name) LOW
                (Some client_ip) (Some subdomain_name) None
                (Some [(''project_id'', VStr project_id),
                       (''security_score'', security_score),
                       (''ssl_configured'', ssl_configured)]), st) (\<lambda>audit st.
       (Inr (), st\<lparr>security :=
                     log_security_audit (t_deployment_log clk) audit (security st)\<rparr>))))))))"

text \<open>
  The body of the \<^verbatim>\<open>try\<close> of \<^verbatim>\<open>create_secure_subdomain\<close>. \<open>random_token\<close> and
  \<open>security_token\<close> are the strings the two calls of \<^verbatim>\<open>token_urlsafe\<close> would return.
\<close>

definition create_secure_subdomain_try ::
  "clock \<Rightarrow> pystr \<Rightarrow> pystr \<Rightarrow> pystr \<Rightarrow> pystr \<Rightarrow> pystr \<Rightarrow> deployment_state \<Rightarrow>
   (py_error + (string \<times> pyval) list) \<times> deployment_state" where
  "create_secure_subdomain_try clk random_token security_token project_id business_name
       client_ip st =
     bind_st (generate_secure_subdomain (security_service_token_urlsafe random_token)
                business_name st, st) (\<lambda>subdomain_name st.
     (case validate_subdomain_security (t_rate_check clk) (t_validation_log clk)
             subdomain_name client_ip (security st) of
        (security_validation, sec1) \<Rightarrow>
     bind_st (getitem security_validation ''valid'', st\<lparr>security := sec1\<rparr>) (\<lambda>is_valid st.
     if \<not> truthy is_valid then
       bind_st (getitem security_validation ''error'', st) (\<lambda>error st.
       bind_st (getitem security_validation ''security_level'', st) (\<lambda>security_level st.
         (Inr [(''success'', VBool False),
               (''error'', error),
               (''security_level'', security_level),
               (''threat_detected'',
                  get_or security_validation ''threat_detected'' (VBool False))], st)))
     else
     (case create_isolated_environment security_token (t_environment_log clk)
             (str ''/deployments/'' @ project_id) project_id (security st) of
        (isolated_env, sec2) \<Rightarrow>
     bind_st (getitem isolated_env ''success'', st\<lparr>security := sec2\<rparr>) (\<lambda>env_created st.
     if \<not> truthy env_created then
       (Inr [(''success'', VBool False),
             (''error'', VStr (str ''Failed to create isolated environment'')),
             (''security_level'', VLevel CRITICAL)], st)
     else
     (case configure_wildcard_ssl (t_ssl_log clk) subdomain_name (security st) of
        (ssl_config, sec3) \<Rightarrow>
     (let security_config = setup_security_configuration subdomain_name;
          deployment_result = deploy_to_secure_environment (t_deployment_time clk) project_id
             subdomain_name isolated_env security_config
      in
     bind_st (getitem deployment_result ''success'', st\<lparr>security := sec3\<rparr>) (\<lambda>deployed st.
     bind_st (if truthy deployed
              then register_deployment clk project_id subdomain_name client_ip
                     security_validation ssl_config security_config st
              else (Inr (), st)) (\<lambda>_ st.
     bind_st (getitem deployment_result ''success'', st) (\<lambda>success st.
     bind_st (getitem security_validation ''security_score'', st) (\<lambda>security_score st.
     bind_st (getitem ssl_config ''success'', st) (\<lambda>ssl_configured st.
     bind_st (getitem security_config ''headers'', st) (\<lambda>headers st.
       (Inr [(''success'', success),
             (''subdomain'', VStr subdomain_name),
             (''full_url'', VStr (str ''https://'' @ subdomain_name @ str ''.'' @ base_domain)),
             (''security_score'', security_score),
             (''ssl_configured'', ssl_configured),
             (''security_headers'', headers),
             (''deployment_info'', VDict deployment_result),
             (''recommendations'',
                get_or security_validation ''recommendations'' (VList []))], st))))))))))))))"

text \<open>\<^verbatim>\<open>create_secure_subdomain\<close>: the body and the \<^verbatim>\<open>except Exception\<close> clause.\<close>

definition create_secure_subdomain ::
  "clock \<Rightarrow> pystr \<Rightarrow> pystr \<Rightarrow> pystr \<Rightarrow> pystr \<Rightarrow> pystr \<Rightarrow> deployment_state \<Rightarrow>
   (string \<times> pyval) list \<times> deployment_state" where
  "create_secure_subdomain clk random_token security_token project_id business_name client_ip st =
     (case create_secure_subdomain_try clk random_token security_token project_id business_name
             client_ip st of
        (Inr result, st') \<Rightarrow> (result, st')
      | (Inl e, st') \<Rightarrow>
          ([(''success'', VBool False),
            (''error'', VStr (str ''Deployment failed: '' @ exc_message e)),
            (''security_level'', VLevel CRITICAL)], st'))"

text \<open>
  \<^verbatim>\<open>revoke_subdomain\<close>: the body of the \<^verbatim>\<open>try\<close>, which logs the revocation before it
  deletes the entry, and the \<^verbatim>\<open>except\<close> clause.
\<close>

definition revoke_subdomain_try ::
  "int \<Rightarrow> pystr \<Rightarrow> pystr \<Rightarrow> deployment_state \<Rightarrow>
   (py_error + (string \<times> pyval) list) \<times> deployment_state" where
  "revoke_subdomain_try t_log subdomain_name client_ip st =
     (if \<not> dict_contains (active_subdomains st) subdomain_name then
        (Inr [(''success'', VBool False), (''error'', VStr (str ''Subdomain not found''))], st)
      else
        bind_st (security_service_getattr ''_log_security_audit'', st) (\<lambda>_ st.
        bind_st (security_service_getattr ''SecurityAudit'', st) (\<lambda>_ st.
        bind_st (new_SecurityAudit (str ''subdomain_revocation'')
                   (str ''Subdomain revoked: '' @ subdomain_name) MEDIUM
                   (Some client_ip) (Some subdomain_name) None None, st) (\<lambda>audit st.
        bind_st (Inr (), st\<lparr>security := log_security_audit t_log audit (security st)\<rparr>) (\<lambda>_ st.
        bind_st (Inr (), st\<lparr>active_subdomains :=
                               dict_del (active_subdomains st) subdomain_name\<rparr>) (\<lambda>_ st.
          (Inr [(''success'', VBool True),
                (''message'', VStr (str ''Subdomain '' @ subdomain_name @
                   str '' revoked successfully''))], st)))))))"

definition revoke_subdomain ::
  "int \<Rightarrow> pystr \<Rightarrow> pystr \<Rightarrow> deployment_state \<Rightarrow> (string \<times> pyval) list \<times> deployment_state" where
  "revoke_subdomain t_log subdomain_name client_ip st =
     (case revoke_subdomain_try t_log subdomain_name client_ip st of
        (Inr result, st') \<Rightarrow> (result, st')
      | (Inl e, st') \<Rightarrow>
          ([(''success'', VBool False),
            (''error'', VStr (str ''Revocation failed: '' @ exc_message e))], st'))"




fun py_round_2 :: "pyval \<Rightarrow> py_error + pyval" where
  "py_round_2 (VInt i) = Inr (VInt i)"
| "py_round_2 (VFloat x) = bind_err (py_round2 x) (\<lambda>y. Inr (VFloat y))"
| "py_round_2 v = Inl (OperandError ''round'')"


subsection \<open>The score as the specification words it\<close>

text \<open>
  The specification charges 20 for each occurrence of one of the four substrings.
  \<open>count_occurrences s p\<close> is the number of positions of \<open>s\<close> at which \<open>p\<close> starts, and
  \<open>claimed_security_score\<close> is the score with the fourth penalty charged that way.
\<close>

fun count_occurrences :: "pystr \<Rightarrow> pystr \<Rightarrow> nat" where
  "count_occurrences [] p = 0"
| "count_occurrences (c # cs) p =
     (if startswith (c # cs) p then 1 else 0) + count_occurrences cs p"

definition claimed_security_score :: "pystr \<Rightarrow> int" where
  "claimed_security_score name =
     max 0 (100 - (if length name < 5 then 10 else 0)
                - (if list_ex is_digit name then 0 else 5)
                - (if 2 < count_list name 45 then 15 else 0)
                - 20 * int (sum_list (map (count_occurrences name) low_effort_patterns)))"

section \<open>The security score\<close>

lemma penalty_fold_eq:
  "foldl (\<lambda>s pattern. if str_contains name pattern then s - 20 else s) (x :: int) ps =
     x - 20 * int (length (filter (str_contains name) ps))"
  by (induction ps arbitrary: x) auto

lemma penalty_patterns_le_4:
  "length (filter (str_contains name) low_effort_patterns) \<le> 4"
proof -
  have "length (filter (str_contains name) low_effort_patterns) \<le> length low_effort_patterns"
    by (rule length_filter_le)
  then show ?thesis by (simp add: low_effort_patterns_def)
qed

text \<open>
  C3 (as the code has it). The score is 100 less 10 for a name shorter than 5, less 5 for
  a name without a digit, less 15 for more than two hyphens, less 20 for each of the four
  substrings test, demo, temp, tmp that is found in the name (each substring is charged
  once, however often it occurs), floored at 0. It lies in 0..100. The score is a function
  of the name alone, so two calls on one name give one score.
\<close>

theorem calculate_security_score_formula:
  "calculate_security_score name =
     max 0 (100 - (if length name < 5 then 10 else 0)
                - (if list_ex is_digit name then 0 else 5)
                - (if 2 < count_list name 45 then 15 else 0)
                - 20 * int (length (filter (str_contains name) low_effort_patterns)))
   \<and> 0 \<le> calculate_security_score name
   \<and> calculate_security_score name \<le> 100"
proof -
  have formula: "calculate_security_score name =
     max 0 (100 - (if length name < 5 then 10 else 0)
                - (if list_ex is_digit name then 0 else 5)
                - (if 2 < count_list name 45 then 15 else 0)
                - 20 * int (length (filter (str_contains name) low_effort_patterns)))"
    unfolding calculate_security_score_def Let_def penalty_fold_eq by simp
  have lower_bound: "0 \<le> calculate_security_score name"
    unfolding calculate_security_score_def Let_def by simp
  have upper_bound: "calculate_security_score name \<le> 100"
    unfolding formula by simp
  from formula lower_bound upper_bound show ?thesis by blast
qed

theorem calculate_security_score_formula_witness:
  "calculate_security_score (str ''ab12345'') = 100
   \<and> calculate_security_score (str ''test'') = 65"
  using calculate_security_score_formula [of "str ''ab12345''"]
        calculate_security_score_formula [of "str ''test''"]
  by (simp add: low_effort_patterns_def is_digit_def)

text \<open>
  C3 (as the specification words it) fails at the name \<^verbatim>\<open>testtest\<close>: the substring test
  occurs twice, which the specification charges 40, and the code charges 20.
\<close>

theorem calculate_security_score_counterexample:
  "calculate_security_score (str ''testtest'') = 75
   \<and> claimed_security_score (str ''testtest'') = 55"
  by (simp add: calculate_security_score_def claimed_security_score_def
        low_effort_patterns_def is_digit_def)

section \<open>Dicts\<close>

lemma map_of_replace:
  "map_of (map (\<lambda>(k', v'). if k' = k then (k', v) else (k', v')) d) k'' =
     (if k'' = k then (if map_of d k = None then None else Some v) else map_of d k'')"
  by (induction d) auto

lemma map_replace_absent:
  "map_of d k = None \<Longrightarrow> map (\<lambda>(k', v'). if k' = k then (k', w) else (k', v')) d = d"
  by (induction d) (auto split: if_splits)

lemma map_replace_twice:
  "map (\<lambda>(k', v'). if k' = k then (k', w) else (k', v'))
     (map (\<lambda>(k', v'). if k' = k then (k', v) else (k', v')) d) =
   map (\<lambda>(k', v'). if k' = k then (k', w) else (k', v')) d"
  by (induction d) auto

lemma dict_get_set:
  "dict_get (dict_set d k v) k' = (if k' = k then Some v else dict_get d k')"
proof (cases "map_of d k")
  case None
  then have "dict_set d k v = d @ [(k, v)]"
    by (simp add: dict_set_def dict_contains_def dict_get_def)
  with None show ?thesis
    by (simp add: dict_get_def map_add_def split: option.splits)
next
  case (Some x)
  then have "dict_set d k v = map (\<lambda>(k', v'). if k' = k then (k', v) else (k', v')) d"
    by (simp add: dict_set_def dict_contains_def dict_get_def)
  with Some show ?thesis
    by (simp add: dict_get_def map_of_replace)
qed

lemma dict_set_set: "dict_set (dict_set d k v) k w = dict_set d k w"
proof (cases "map_of d k")
  case None
  then have first: "dict_set d k v = d @ [(k, v)]" and other: "dict_set d k w = d @ [(k, w)]"
    by (simp_all add: dict_set_def dict_contains_def dict_get_def)
  have "dict_contains (d @ [(k, v)]) k"
    by (simp add: dict_contains_def dict_get_def map_add_def split: option.splits)
  then have "dict_set (d @ [(k, v)]) k w =
      map (\<lambda>(k', v'). if k' = k then (k', w) else (k', v')) d @ [(k, w)]"
    by (simp add: dict_set_def)
  with None first other show ?thesis
    by (simp add: map_replace_absent)
next
  case (Some x)
  then have first: "dict_set d k v = map (\<lambda>(k', v'). if k' = k then (k', v) else (k', v')) d"
    and other: "dict_set d k w = map (\<lambda>(k', v'). if k' = k then (k', w) else (k', v')) d"
    by (simp_all add: dict_set_def dict_contains_def dict_get_def)
  have "dict_contains (dict_set d k v) k"
    by (simp add: dict_contains_def dict_get_set)
  then have "dict_set (dict_set d k v) k w =
      map (\<lambda>(k', v'). if k' = k then (k', w) else (k', v')) (dict_set d k v)"
    by (simp add: dict_set_def)
  with first other show ?thesis
    by (simp only: map_replace_twice)
qed

section \<open>The rate limit\<close>

lemma check_rate_limit_eq:
  "check_rate_limit current_time t_log client_ip st =
     (let window = filter (\<lambda>time. current_time - time < hour) (client_window st client_ip)
      in if 5 \<le> length window then
           (Inr False,
            log_security_audit t_log
              (SecurityAudit (str ''rate_limit_violation'')
                 (str ''Rate limit exceeded for IP: '' @ client_ip) HIGH client_ip None
                 (Some RATE_LIMIT_VIOLATION) None)
              (st\<lparr>rate_limit_store := dict_set (rate_limit_store st) client_ip window\<rparr>))
         else
           (Inr True,
            st\<lparr>rate_limit_store :=
                 dict_set (rate_limit_store st) client_ip (window @ [current_time])\<rparr>))"
  by (auto simp: check_rate_limit_def client_window_def Let_def new_SecurityAudit_def
        dict_get_set dict_set_set dict_contains_def split: option.splits)

lemma client_window_set [simp]:
  "client_window (st\<lparr>rate_limit_store := dict_set (rate_limit_store st) ip w\<rparr>) ip = w"
  by (simp add: client_window_def dict_get_set)

lemma client_window_log [simp]:
  "client_window (log_security_audit t a st) ip = client_window st ip"
  by (cases a) (simp add: client_window_def)

lemma client_window_set_log [simp]:
  "client_window (st\<lparr>rate_limit_store := dict_set (rate_limit_store st) ip w,
       security_audit_log := l\<rparr>) ip = w"
  by (simp add: client_window_def dict_get_set)

lemma client_window_other:
  "other \<noteq> ip \<Longrightarrow>
     client_window (snd (check_rate_limit now t_log ip st)) other = client_window st other"
  by (simp add: check_rate_limit_eq Let_def client_window_def dict_get_set)

lemma rate_checks_by_answers:
  assumes "\<forall>t\<in>set (client_window st ip).
             \<forall>r\<in>set (filter (\<lambda>r. fst r = ip) reqs). fst (snd r) - t < hour"
    and "\<forall>a\<in>set (filter (\<lambda>r. fst r = ip) reqs).
           \<forall>b\<in>set (filter (\<lambda>r. fst r = ip) reqs). fst (snd a) - fst (snd b) < hour"
  shows "map snd (filter (\<lambda>p. fst p = ip) (fst (rate_checks_by reqs st))) =
           map (\<lambda>k. Inr (length (client_window st ip) + k < 5))
             [0..<length (filter (\<lambda>r. fst r = ip) reqs)]"
  using assms
proof (induction reqs arbitrary: st)
  case Nil
  then show ?case by simp
next
  case (Cons req rest)
  obtain c now l where req: "req = (c, now, l)" by (cases req)
  obtain answer st1 where step: "check_rate_limit now l c st = (answer, st1)"
    by (cases "check_rate_limit now l c st")
  have unfold: "fst (rate_checks_by (req # rest) st) = (c, answer) # fst (rate_checks_by rest st1)"
    by (simp add: req step split: prod.splits)
  show ?case
  proof (cases "c = ip")
    case False
    have w1: "client_window st1 ip = client_window st ip"
      using client_window_other [of ip c now l st] step False by simp
    have "map snd (filter (\<lambda>p. fst p = ip) (fst (rate_checks_by rest st1))) =
        map (\<lambda>k. Inr (length (client_window st1 ip) + k < 5))
          [0..<length (filter (\<lambda>r. fst r = ip) rest)]"
      using Cons.prems False by (intro Cons.IH) (simp_all add: w1 req)
    then show ?thesis
      unfolding unfold using False by (simp add: w1 req)
  next
    case True
    let ?w = "client_window st ip"
    have keep: "filter (\<lambda>time. now - time < hour) ?w = ?w"
      using Cons.prems(1) True by (simp add: req)
    have answer: "answer = Inr (length ?w < 5)"
      and w1: "client_window st1 ip = (if length ?w < 5 then ?w @ [now] else ?w)"
      using step True by (auto simp: check_rate_limit_eq Let_def keep split: if_splits)
    have pre1: "\<forall>t\<in>set (client_window st1 ip).
        \<forall>r\<in>set (filter (\<lambda>r. fst r = ip) rest). fst (snd r) - t < hour"
      using Cons.prems True by (auto simp: w1 req)
    have pre2: "\<forall>a\<in>set (filter (\<lambda>r. fst r = ip) rest).
        \<forall>b\<in>set (filter (\<lambda>r. fst r = ip) rest). fst (snd a) - fst (snd b) < hour"
      using Cons.prems(2) by auto
    have ih: "map snd (filter (\<lambda>p. fst p = ip) (fst (rate_checks_by rest st1))) =
        map (\<lambda>k. Inr (length (client_window st1 ip) + k < 5))
          [0..<length (filter (\<lambda>r. fst r = ip) rest)]"
      by (rule Cons.IH [OF pre1 pre2])
    have shift: "\<And>k. (length (client_window st1 ip) + k < 5) = (length ?w + Suc k < 5)"
      by (auto simp: w1)
    show ?thesis
      unfolding unfold using True
      by (simp add: req ih answer shift map_upt_Suc del: upt_Suc)
  qed
qed

text \<open>
  C2 (as the code has it). A rate check prunes the window of the client: the entries that
  stay are those less than one hour old, and an entry one hour old or older goes. If five
  or more stay, the check answers False, the window is the pruned one, with no entry
  added, and the audit log grows by one event of type rate_limit_violation with severity
  high; otherwise the check answers True, the current time is appended to the pruned
  window and the audit log is as before. The window of every other client is as before.
  Hence, for a client with an empty window whose attempts lie less than one hour from each
  other, the first five pass and every later one is refused, whatever checks other clients
  make in between.
\<close>

theorem check_rate_limit_window:
  "(let window = filter (\<lambda>time. now - time < hour) (client_window st ip);
        answer = fst (check_rate_limit now t_log ip st);
        st' = snd (check_rate_limit now t_log ip st)
    in (if 5 \<le> length window then
          answer = Inr False \<and> client_window st' ip = window \<and>
          security_audit_log st' = security_audit_log st @
            [[(''timestamp'', VIsoformat t_log),
              (''event_type'', VStr (str ''rate_limit_violation'')),
              (''description'', VStr (str ''Rate limit exceeded for IP: '' @ ip)),
              (''severity'', VStr (str ''high'')),
              (''client_ip'', VStr ip),
              (''subdomain'', VNone),
              (''threat_type'', VStr (str ''rate_limit_violation'')),
              (''metadata'', VNone)]]
        else
          answer = Inr True \<and> client_window st' ip = window @ [now] \<and>
          security_audit_log st' = security_audit_log st)
       \<and> (other \<noteq> ip \<longrightarrow> client_window st' other = client_window st other))
   \<and> (client_window st ip = [] \<and>
        (\<forall>a\<in>set (filter (\<lambda>r. fst r = ip) reqs).
           \<forall>b\<in>set (filter (\<lambda>r. fst r = ip) reqs). fst (snd a) - fst (snd b) < hour) \<longrightarrow>
      map snd (filter (\<lambda>p. fst p = ip) (fst (rate_checks_by reqs st))) =
        map (\<lambda>k. Inr (k < 5)) [0..<length (filter (\<lambda>r. fst r = ip) reqs)])"
proof -
  have one: "(let window = filter (\<lambda>time. now - time < hour) (client_window st ip);
        answer = fst (check_rate_limit now t_log ip st);
        st' = snd (check_rate_limit now t_log ip st)
    in (if 5 \<le> length window then
          answer = Inr False \<and> client_window st' ip = window \<and>
          security_audit_log st' = security_audit_log st @
            [[(''timestamp'', VIsoformat t_log),
              (''event_type'', VStr (str ''rate_limit_violation'')),
              (''description'', VStr (str ''Rate limit exceeded for IP: '' @ ip)),
              (''severity'', VStr (str ''high'')),
              (''client_ip'', VStr ip),
              (''subdomain'', VNone),
              (''threat_type'', VStr (str ''rate_limit_violation'')),
              (''metadata'', VNone)]]
        else
          answer = Inr True \<and> client_window st' ip = window @ [now] \<and>
          security_audit_log st' = security_audit_log st)
       \<and> (other \<noteq> ip \<longrightarrow> client_window st' other = client_window st other))"
    using client_window_other [of other ip now t_log st]
    by (simp add: check_rate_limit_eq Let_def)
  have run: "map snd (filter (\<lambda>p. fst p = ip) (fst (rate_checks_by reqs st))) =
        map (\<lambda>k. Inr (k < 5)) [0..<length (filter (\<lambda>r. fst r = ip) reqs)]"
    if fresh: "client_window st ip = []"
      and near: "\<forall>a\<in>set (filter (\<lambda>r. fst r = ip) reqs).
           \<forall>b\<in>set (filter (\<lambda>r. fst r = ip) reqs). fst (snd a) - fst (snd b) < hour"
  proof -
    have "map snd (filter (\<lambda>p. fst p = ip) (fst (rate_checks_by reqs st))) =
        map (\<lambda>k. Inr (length (client_window st ip) + k < 5))
          [0..<length (filter (\<lambda>r. fst r = ip) reqs)]"
      using near by (intro rate_checks_by_answers) (simp_all add: fresh)
    then show ?thesis by (simp add: fresh)
  qed
  from one run show ?thesis by blast
qed

theorem check_rate_limit_window_witness:
  "fst (rate_checks_by
         [(str ''10.0.0.5'', 0, 1), (str ''10.0.0.5'', 10, 11), (str ''10.0.0.9'', 15, 16),
          (str ''10.0.0.5'', 20, 21), (str ''10.0.0.5'', 30, 31), (str ''10.0.0.5'', 40, 41),
          (str ''10.0.0.5'', 3599999999, 3600000000)]
         \<lparr>rate_limit_store = [], security_audit_log = []\<rparr>) =
     [(str ''10.0.0.5'', Inr True), (str ''10.0.0.5'', Inr True), (str ''10.0.0.9'', Inr True),
      (str ''10.0.0.5'', Inr True), (str ''10.0.0.5'', Inr True), (str ''10.0.0.5'', Inr True),
      (str ''10.0.0.5'', Inr False)]
   \<and> fst (check_rate_limit 3599999999 3600000000 (str ''10.0.0.5'')
        \<lparr>rate_limit_store = [(str ''10.0.0.5'', [0, 10, 20, 30, 40]), (str ''10.0.0.9'', [15])],
         security_audit_log = []\<rparr>) = Inr False
   \<and> client_window (snd (check_rate_limit 3599999999 3600000000 (str ''10.0.0.5'')
        \<lparr>rate_limit_store = [(str ''10.0.0.5'', [0, 10, 20, 30, 40]), (str ''10.0.0.9'', [15])],
         security_audit_log = []\<rparr>)) (str ''10.0.0.9'') = [15]"
  using check_rate_limit_window [of 3599999999
      "\<lparr>rate_limit_store = [(str ''10.0.0.5'', [0, 10, 20, 30, 40]), (str ''10.0.0.9'', [15])],
         security_audit_log = []\<rparr>" "str ''10.0.0.5''" 3600000000 "str ''10.0.0.9''"
      "[(str ''10.0.0.5'', 0, 1), (str ''10.0.0.5'', 10, 11), (str ''10.0.0.9'', 15, 16),
          (str ''10.0.0.5'', 20, 21), (str ''10.0.0.5'', 30, 31), (str ''10.0.0.5'', 40, 41),
          (str ''10.0.0.5'', 3599999999, 3600000000)]"]
    check_rate_limit_window [of 0 "\<lparr>rate_limit_store = [], security_audit_log = []\<rparr>"
      "str ''10.0.0.5''" 1 "str ''10.0.0.9''"
      "[(str ''10.0.0.5'', 0, 1), (str ''10.0.0.5'', 10, 11), (str ''10.0.0.9'', 15, 16),
          (str ''10.0.0.5'', 20, 21), (str ''10.0.0.5'', 30, 31), (str ''10.0.0.5'', 40, 41),
          (str ''10.0.0.5'', 3599999999, 3600000000)]"]
  by (simp add: check_rate_limit_eq client_window_def dict_get_def dict_set_def
        dict_contains_def hour_def Let_def)

text \<open>
  C2 (as the specification words it) fails at the boundary: with five entries of which the
  oldest is exactly one hour old, the specification keeps all five and refuses, and the
  code prunes the oldest and admits; and of six attempts, the sixth exactly one hour after
  the first, the code admits all six.
\<close>

theorem check_rate_limit_window_counterexample:
  "\<not> claimed_rate_answer 3600000000 [0, 10, 20, 30, 40]
   \<and> fst (check_rate_limit 3600000000 3600000001 (str ''10.0.0.5'')
        \<lparr>rate_limit_store = [(str ''10.0.0.5'', [0, 10, 20, 30, 40])],
         security_audit_log = []\<rparr>) = Inr True
   \<and> map snd (fst (rate_checks_by
         [(str ''10.0.0.5'', 0, 1), (str ''10.0.0.5'', 10, 11), (str ''10.0.0.5'', 20, 21),
          (str ''10.0.0.5'', 30, 31), (str ''10.0.0.5'', 40, 41),
          (str ''10.0.0.5'', 3600000000, 3600000001)]
         \<lparr>rate_limit_store = [], security_audit_log = []\<rparr>)) =
     [Inr True, Inr True, Inr True, Inr True, Inr True, Inr True]"
  by (simp add: claimed_rate_answer_def check_rate_limit_eq client_window_def dict_get_def
        dict_set_def dict_contains_def hour_def Let_def)


section \<open>The validation pipeline\<close>

lemma new_SecurityAudit_no_client_ip:
  "new_SecurityAudit et d sev None sub tt md = Inl (TypeError ''SecurityAudit.__init__'' ''client_ip'')"
  by (simp add: new_SecurityAudit_def)

lemma validate_input_eq:
  "validate_input t_log name st =
     (if length name < 3 \<or> length name > 63 then
        (Inr [(''valid'', VBool False),
              (''error'', VStr (str ''Subdomain must be between 3 and 63 characters.'')),
              (''security_level'', VLevel MEDIUM)], st)
      else if \<not> format_match name then
        (Inr [(''valid'', VBool False),
              (''error'', VStr (str
                 ''Subdomain must contain only lowercase letters, numbers, and hyphens.'')),
              (''security_level'', VLevel MEDIUM)], st)
      else if find (\<lambda>suspicious. str_contains (lower name) suspicious) suspicious_chars \<noteq> None
        then (Inl (TypeError ''SecurityAudit.__init__'' ''client_ip''), st)
      else (Inr [(''valid'', VBool True)], st))"
  unfolding validate_input_def new_SecurityAudit_no_client_ip
  by (simp split: option.splits)

lemma check_blocked_patterns_eq:
  "check_blocked_patterns t_log name st =
     (if find (\<lambda>pattern. str_contains (lower name) pattern) blocked_patterns \<noteq> None
      then (Inl (TypeError ''SecurityAudit.__init__'' ''client_ip''), st)
      else (Inr False, st))"
  unfolding check_blocked_patterns_def new_SecurityAudit_no_client_ip
  by (simp split: option.splits)

lemma detect_homograph_attack_eq:
  "detect_homograph_attack t_log name st =
     (if find (\<lambda>char. char \<in> set name) suspicious_unicode \<noteq> None
      then (Inl (TypeError ''SecurityAudit.__init__'' ''client_ip''), st)
      else (Inr False, st))"
  unfolding detect_homograph_attack_def new_SecurityAudit_no_client_ip
  by (simp split: option.splits)

lemma validate_rate_limited:
  assumes "5 \<le> length (filter (\<lambda>time. now - time < hour) (client_window st ip))"
  shows "validate_subdomain_security now t_log name ip st =
     ([(''valid'', VBool False),
       (''error'', VStr (str ''Rate limit exceeded. Please try again later.'')),
       (''security_level'', VLevel CRITICAL),
       (''threat_detected'', VBool True)],
      log_security_audit t_log
        (SecurityAudit (str ''rate_limit_violation'')
           (str ''Rate limit exceeded for IP: '' @ ip) HIGH ip None
           (Some RATE_LIMIT_VIOLATION) None)
        (st\<lparr>rate_limit_store := dict_set (rate_limit_store st) ip
              (filter (\<lambda>time. now - time < hour) (client_window st ip))\<rparr>))"
  using assms
  by (simp add: validate_subdomain_security_def validate_subdomain_security_try_def
        check_rate_limit_eq Let_def)

lemma validate_admitted:
  assumes "\<not> 5 \<le> length (filter (\<lambda>time. now - time < hour) (client_window st ip))"
  shows "validate_subdomain_security now t_log name ip st =
     (let st1 = st\<lparr>rate_limit_store := dict_set (rate_limit_store st) ip
                   (filter (\<lambda>time. now - time < hour) (client_window st ip) @ [now])\<rparr>
      in if length name < 3 \<or> length name > 63 then
           ([(''valid'', VBool False),
             (''error'', VStr (str ''Subdomain must be between 3 and 63 characters.'')),
             (''security_level'', VLevel MEDIUM)], st1)
         else if \<not> format_match name then
           ([(''valid'', VBool False),
             (''error'', VStr (str
                ''Subdomain must contain only lowercase letters, numbers, and hyphens.'')),
             (''security_level'', VLevel MEDIUM)], st1)
         else if find (\<lambda>suspicious. str_contains (lower name) suspicious) suspicious_chars \<noteq> None
               \<or> find (\<lambda>pattern. str_contains (lower name) pattern) blocked_patterns \<noteq> None
               \<or> find (\<lambda>char. char \<in> set name) suspicious_unicode \<noteq> None then
           ([(''valid'', VBool False),
             (''error'', VStr (str ''Security validation failed.'')),
             (''security_level'', VLevel CRITICAL),
             (''threat_detected'', VBool True)], st1)
         else
           ([(''valid'', VBool True),
             (''security_score'', VInt (calculate_security_score name)),
             (''security_level'', VLevel (get_security_level (calculate_security_score name))),
             (''recommendations'',
                VList (map VStr (get_security_recommendations (calculate_security_score name))))],
            log_security_audit t_log
              (SecurityAudit (str ''subdomain_validation'')
                 (str ''Subdomain validation for: '' @ name) LOW ip (Some name) None
                 (Some [(''security_score'', VInt (calculate_security_score name))]))
              st1))"
  using assms
  unfolding validate_subdomain_security_def validate_subdomain_security_try_def
    check_rate_limit_eq validate_input_eq check_blocked_patterns_eq detect_homograph_attack_eq
  by (simp add: Let_def getitem_def dict_get_def new_SecurityAudit_def)

lemmas eval_defs =
  client_window_def dict_get_def dict_set_def dict_contains_def getitem_def hour_def Let_def
  format_match_def label_match_def is_name_char_def is_lower_alnum_def is_digit_def
  suspicious_chars_def blocked_patterns_def suspicious_unicode_def lower_def lower_cp_def

text \<open>
  C8. Whatever the name, the client, the clock and the state of the service, a result of
  \<^verbatim>\<open>validate_subdomain_security\<close> whose \<^verbatim>\<open>threat_detected\<close> entry is present and true has
  \<^verbatim>\<open>valid\<close> equal to False.
\<close>

theorem threat_detected_implies_invalid:
  "(case dict_get (fst (validate_subdomain_security now t_log name ip st)) ''threat_detected'' of
      None \<Rightarrow> False
    | Some v \<Rightarrow> truthy v)
   \<Longrightarrow> getitem (fst (validate_subdomain_security now t_log name ip st)) ''valid'' =
         Inr (VBool False)"
proof (cases "5 \<le> length (filter (\<lambda>time. now - time < hour) (client_window st ip))")
  case True
  then show ?thesis
    by (simp add: validate_rate_limited getitem_def dict_get_def)
next
  case False
  assume "case dict_get (fst (validate_subdomain_security now t_log name ip st))
                 ''threat_detected'' of
            None \<Rightarrow> False
          | Some v \<Rightarrow> truthy v"
  with False show ?thesis
    by (simp add: validate_admitted Let_def getitem_def dict_get_def split: if_splits)
qed

theorem threat_detected_implies_invalid_witness:
  "dict_get (fst (validate_subdomain_security 0 1 (str ''admin-site'') (str ''10.0.0.5'')
       \<lparr>rate_limit_store = [], security_audit_log = []\<rparr>)) ''threat_detected'' = Some (VBool True)
   \<and> getitem (fst (validate_subdomain_security 0 1 (str ''admin-site'') (str ''10.0.0.5'')
       \<lparr>rate_limit_store = [], security_audit_log = []\<rparr>)) ''valid'' = Inr (VBool False)"
proof -
  have td: "dict_get (fst (validate_subdomain_security 0 1 (str ''admin-site'') (str ''10.0.0.5'')
       \<lparr>rate_limit_store = [], security_audit_log = []\<rparr>)) ''threat_detected'' = Some (VBool True)"
    by (simp add: validate_admitted eval_defs)
  then have "case dict_get (fst (validate_subdomain_security 0 1 (str ''admin-site'')
       (str ''10.0.0.5'') \<lparr>rate_limit_store = [], security_audit_log = []\<rparr>)) ''threat_detected'' of
            None \<Rightarrow> False
          | Some v \<Rightarrow> truthy v"
    by simp
  from td threat_detected_implies_invalid [OF this] show ?thesis by simp
qed

text \<open>
  C6, evaluated at the name \<^verbatim>\<open>admin-site\<close> for a client with no earlier attempt. The
  name passes the length, format and suspicious-token stages and holds the blocked word
  admin. \<^verbatim>\<open>_check_blocked_patterns\<close> raises TypeError where it builds the audit event,
  so the pipeline answers from its \<^verbatim>\<open>except\<close> clause: the name is refused, with level
  CRITICAL and the error of a failed validation, and the audit log stays empty; no
  blocked_pattern event of severity medium is logged.
\<close>

theorem blocked_pattern_admin_site:
  "fst (check_blocked_patterns 1 (str ''admin-site'')
          \<lparr>rate_limit_store = [(str ''10.0.0.5'', [0])], security_audit_log = []\<rparr>) =
     Inl (TypeError ''SecurityAudit.__init__'' ''client_ip'')
   \<and> validate_subdomain_security 0 1 (str ''admin-site'') (str ''10.0.0.5'')
       \<lparr>rate_limit_store = [], security_audit_log = []\<rparr> =
     ([(''valid'', VBool False),
       (''error'', VStr (str ''Security validation failed.'')),
       (''security_level'', VLevel CRITICAL),
       (''threat_detected'', VBool True)],
      \<lparr>rate_limit_store = [(str ''10.0.0.5'', [0])], security_audit_log = []\<rparr>)"
  by (simp add: validate_admitted check_blocked_patterns_eq eval_defs)


text \<open>
  C4 (as the code has it). A refusal by the rate limit appends exactly one audit event, of
  type rate_limit_violation, severity high and threat type rate_limit_violation, before the
  pipeline returns. A refusal for the length or for the format of the name, by a client
  the rate limit admits, returns with level MEDIUM and appends no audit event.
\<close>

theorem rejection_audit_events:
  "(5 \<le> length (filter (\<lambda>time. now - time < hour) (client_window st ip)) \<longrightarrow>
      fst (validate_subdomain_security now t_log name ip st) =
        [(''valid'', VBool False),
         (''error'', VStr (str ''Rate limit exceeded. Please try again later.'')),
         (''security_level'', VLevel CRITICAL),
         (''threat_detected'', VBool True)]
      \<and> security_audit_log (snd (validate_subdomain_security now t_log name ip st)) =
          security_audit_log st @
            [[(''timestamp'', VIsoformat t_log),
              (''event_type'', VStr (str ''rate_limit_violation'')),
              (''description'', VStr (str ''Rate limit exceeded for IP: '' @ ip)),
              (''severity'', VStr (str ''high'')),
              (''client_ip'', VStr ip),
              (''subdomain'', VNone),
              (''threat_type'', VStr (str ''rate_limit_violation'')),
              (''metadata'', VNone)]])
   \<and> (length (filter (\<lambda>time. now - time < hour) (client_window st ip)) < 5 \<and>
        (length name < 3 \<or> 63 < length name \<or> \<not> format_match name) \<longrightarrow>
      getitem (fst (validate_subdomain_security now t_log name ip st)) ''valid'' =
        Inr (VBool False)
      \<and> getitem (fst (validate_subdomain_security now t_log name ip st)) ''security_level'' =
        Inr (VLevel MEDIUM)
      \<and> security_audit_log (snd (validate_subdomain_security now t_log name ip st)) =
          security_audit_log st)"
proof (cases "5 \<le> length (filter (\<lambda>time. now - time < hour) (client_window st ip))")
  case True
  then show ?thesis
    by (simp add: validate_rate_limited)
next
  case False
  then show ?thesis
    by (auto simp: validate_admitted Let_def getitem_def dict_get_def)
qed

theorem rejection_audit_events_witness:
  "security_audit_log (snd (validate_subdomain_security 3600000000 3600000001 (str ''ab'')
       (str ''10.0.0.5'')
       \<lparr>rate_limit_store = [(str ''10.0.0.5'', [0, 10, 20, 30, 40, 50])],
        security_audit_log = []\<rparr>)) =
     [[(''timestamp'', VIsoformat 3600000001),
       (''event_type'', VStr (str ''rate_limit_violation'')),
       (''description'', VStr (str ''Rate limit exceeded for IP: 10.0.0.5'')),
       (''severity'', VStr (str ''high'')),
       (''client_ip'', VStr (str ''10.0.0.5'')),
       (''subdomain'', VNone),
       (''threat_type'', VStr (str ''rate_limit_violation'')),
       (''metadata'', VNone)]]
   \<and> security_audit_log (snd (validate_subdomain_security 0 1 (str ''bright_ideas'')
       (str ''10.0.0.5'') \<lparr>rate_limit_store = [], security_audit_log = []\<rparr>)) = []
   \<and> getitem (fst (validate_subdomain_security 0 1 (str ''bright_ideas'')
       (str ''10.0.0.5'') \<lparr>rate_limit_store = [], security_audit_log = []\<rparr>)) ''security_level'' =
       Inr (VLevel MEDIUM)"
  using rejection_audit_events [of 3600000000
      "\<lparr>rate_limit_store = [(str ''10.0.0.5'', [0, 10, 20, 30, 40, 50])],
        security_audit_log = []\<rparr>" "str ''10.0.0.5''" 3600000001 "str ''ab''"]
    rejection_audit_events [of 0 "\<lparr>rate_limit_store = [], security_audit_log = []\<rparr>"
      "str ''10.0.0.5''" 1 "str ''bright_ideas''"]
  by (simp add: eval_defs)

text \<open>
  C4 (as the specification words it) fails at the names \<^verbatim>\<open>ab\<close>, too short, and
  \<^verbatim>\<open>Bright_Ideas\<close>, of a wrong format: each is refused and the audit log is empty
  afterwards.
\<close>

theorem rejection_audit_events_counterexample:
  "validate_subdomain_security 0 1 (str ''ab'') (str ''10.0.0.5'')
       \<lparr>rate_limit_store = [], security_audit_log = []\<rparr> =
     ([(''valid'', VBool False),
       (''error'', VStr (str ''Subdomain must be between 3 and 63 characters.'')),
       (''security_level'', VLevel MEDIUM)],
      \<lparr>rate_limit_store = [(str ''10.0.0.5'', [0])], security_audit_log = []\<rparr>)
   \<and> validate_subdomain_security 0 1 (str ''Bright_Ideas'') (str ''10.0.0.5'')
       \<lparr>rate_limit_store = [], security_audit_log = []\<rparr> =
     ([(''valid'', VBool False),
       (''error'', VStr (str
          ''Subdomain must contain only lowercase letters, numbers, and hyphens.'')),
       (''security_level'', VLevel MEDIUM)],
      \<lparr>rate_limit_store = [(str ''10.0.0.5'', [0])], security_audit_log = []\<rparr>)"
  by (simp add: validate_admitted eval_defs)

text \<open>
  C7 (as the code has it). A decision with \<^verbatim>\<open>valid\<close> True carries the score of the name
  and the level \<^verbatim>\<open>_get_security_level\<close> gives that score: LOW from 80, MEDIUM from 60,
  HIGH from 40, CRITICAL below. A refusal carries no score; it carries a level, which the
  stage that refused has written as a literal.
\<close>

theorem security_level_of_decision:
  "(getitem (fst (validate_subdomain_security now t_log name ip st)) ''valid'' = Inr (VBool True) \<longrightarrow>
      getitem (fst (validate_subdomain_security now t_log name ip st)) ''security_score'' =
        Inr (VInt (calculate_security_score name))
      \<and> getitem (fst (validate_subdomain_security now t_log name ip st)) ''security_level'' =
        Inr (VLevel (get_security_level (calculate_security_score name))))
   \<and> (getitem (fst (validate_subdomain_security now t_log name ip st)) ''valid'' \<noteq> Inr (VBool True) \<longrightarrow>
      dict_get (fst (validate_subdomain_security now t_log name ip st)) ''security_score'' = None
      \<and> (\<exists>level. getitem (fst (validate_subdomain_security now t_log name ip st))
             ''security_level'' = Inr (VLevel level)))
   \<and> get_security_level score =
       (if 80 \<le> score then LOW else if 60 \<le> score then MEDIUM
        else if 40 \<le> score then HIGH else CRITICAL)"
proof (cases "5 \<le> length (filter (\<lambda>time. now - time < hour) (client_window st ip))")
  case True
  then show ?thesis
    by (simp add: validate_rate_limited getitem_def dict_get_def get_security_level_def)
next
  case False
  then show ?thesis
    by (simp add: validate_admitted Let_def getitem_def dict_get_def get_security_level_def)
qed

theorem security_level_of_decision_witness:
  "fst (validate_subdomain_security 0 1 (str ''brightideas9'') (str ''10.0.0.5'')
       \<lparr>rate_limit_store = [], security_audit_log = []\<rparr>) =
     [(''valid'', VBool True), (''security_score'', VInt 100), (''security_level'', VLevel LOW),
      (''recommendations'', VList [])]
   \<and> getitem (fst (validate_subdomain_security 0 1 (str ''ab'') (str ''10.0.0.5'')
       \<lparr>rate_limit_store = [], security_audit_log = []\<rparr>)) ''security_level'' =
       Inr (VLevel MEDIUM)"
proof -
  have score: "calculate_security_score (str ''brightideas9'') = 100"
    by (simp add: calculate_security_score_def low_effort_patterns_def is_digit_def)
  have accepted: "fst (validate_subdomain_security 0 1 (str ''brightideas9'') (str ''10.0.0.5'')
       \<lparr>rate_limit_store = [], security_audit_log = []\<rparr>) =
     [(''valid'', VBool True), (''security_score'', VInt 100), (''security_level'', VLevel LOW),
      (''recommendations'', VList [])]"
    by (simp add: validate_admitted eval_defs score [simplified] get_security_level_def
          get_security_recommendations_def)
  have refused: "getitem (fst (validate_subdomain_security 0 1 (str ''ab'') (str ''10.0.0.5'')
       \<lparr>rate_limit_store = [], security_audit_log = []\<rparr>)) ''valid'' \<noteq> Inr (VBool True)"
    by (simp add: validate_admitted eval_defs)
  from accepted refused
    security_level_of_decision [of 0 1 "str ''brightideas9''" "str ''10.0.0.5''"
      "\<lparr>rate_limit_store = [], security_audit_log = []\<rparr>" 100]
    security_level_of_decision [of 0 1 "str ''ab''" "str ''10.0.0.5''"
      "\<lparr>rate_limit_store = [], security_audit_log = []\<rparr>" 100]
  show ?thesis
    by (simp add: validate_admitted eval_defs get_security_level_def
          get_security_recommendations_def)
qed

text \<open>
  C7 (as the specification words it) fails on refusals: the name \<^verbatim>\<open>ab\<close> is refused with
  level MEDIUM by a fresh service and with level CRITICAL by a service that has five recent
  attempts of the client, and neither decision has a score the level could come from.
\<close>

theorem security_level_counterexample:
  "dict_get (fst (validate_subdomain_security 0 1 (str ''ab'') (str ''10.0.0.5'')
       \<lparr>rate_limit_store = [], security_audit_log = []\<rparr>)) ''security_score'' = None
   \<and> dict_get (fst (validate_subdomain_security 0 1 (str ''ab'') (str ''10.0.0.5'')
       \<lparr>rate_limit_store = [], security_audit_log = []\<rparr>)) ''security_level'' =
       Some (VLevel MEDIUM)
   \<and> dict_get (fst (validate_subdomain_security 3600000000 3600000001 (str ''ab'')
       (str ''10.0.0.5'')
       \<lparr>rate_limit_store = [(str ''10.0.0.5'', [0, 10, 20, 30, 40, 50])],
        security_audit_log = []\<rparr>)) ''security_score'' = None
   \<and> dict_get (fst (validate_subdomain_security 3600000000 3600000001 (str ''ab'')
       (str ''10.0.0.5'')
       \<lparr>rate_limit_store = [(str ''10.0.0.5'', [0, 10, 20, 30, 40, 50])],
        security_audit_log = []\<rparr>)) ''security_level'' = Some (VLevel CRITICAL)"
  by (simp add: validate_admitted validate_rate_limited eval_defs)


section \<open>The deployment service\<close>

lemma security_service_has_no_secrets:
  "security_service_token_urlsafe random_token = Inl (AttributeError ''SecurityService'' ''secrets'')"
  by (simp add: security_service_token_urlsafe_def security_service_getattr_def
        SecurityService_attributes_def bind_err_def)

lemma security_service_has_no_SecurityAudit:
  "security_service_getattr ''SecurityAudit'' = Inl (AttributeError ''SecurityService'' ''SecurityAudit'')"
  by (simp add: security_service_getattr_def SecurityService_attributes_def)

lemma security_service_has_log_security_audit:
  "security_service_getattr ''_log_security_audit'' = Inr ()"
  by (simp add: security_service_getattr_def SecurityService_attributes_def)

lemma create_secure_subdomain_fails:
  "create_secure_subdomain clk random_token security_token project_id business_name client_ip st =
     ([(''success'', VBool False),
       (''error'', VStr (str ''Deployment failed: '' @
          exc_message (AttributeError ''SecurityService'' ''secrets''))),
       (''security_level'', VLevel CRITICAL)], st)"
  by (simp add: create_secure_subdomain_def create_secure_subdomain_try_def
        generate_secure_subdomain_def security_service_has_no_secrets bind_err_def bind_st_def
        Let_def)

lemma revoke_subdomain_eq:
  "revoke_subdomain t_log subdomain_name client_ip st =
     (if \<not> dict_contains (active_subdomains st) subdomain_name then
        [(''success'', VBool False), (''error'', VStr (str ''Subdomain not found''))]
      else
        [(''success'', VBool False),
         (''error'', VStr (str ''Revocation failed: '' @
            exc_message (AttributeError ''SecurityService'' ''SecurityAudit'')))], st)"
  by (simp add: revoke_subdomain_def revoke_subdomain_try_def bind_st_def
        security_service_has_no_SecurityAudit security_service_has_log_security_audit)

text \<open>
  C1, evaluated at the business name \<^verbatim>\<open>brightideas9\<close> and the client \<^verbatim>\<open>10.0.0.5\<close> on
  a fresh registry, whatever the project, the clock and the random tokens.
  \<^verbatim>\<open>_generate_secure_subdomain\<close> reads \<^verbatim>\<open>security_service.secrets\<close>, an attribute the
  instance does not have, so the call ends in the \<^verbatim>\<open>except\<close> clause: the result has
  \<^verbatim>\<open>success\<close> False, neither a score nor \<^verbatim>\<open>ssl_configured\<close>, and no audit event is
  appended and no registry entry made.
\<close>

theorem create_secure_subdomain_brightideas9:
  "create_secure_subdomain clk random_token security_token project_id (str ''brightideas9'')
       (str ''10.0.0.5'')
       \<lparr>security = \<lparr>rate_limit_store = [], security_audit_log = []\<rparr>, active_subdomains = []\<rparr> =
     ([(''success'', VBool False),
       (''error'', VStr (str ''Deployment failed: '' @
          exc_message (AttributeError ''SecurityService'' ''secrets''))),
       (''security_level'', VLevel CRITICAL)],
      \<lparr>security = \<lparr>rate_limit_store = [], security_audit_log = []\<rparr>, active_subdomains = []\<rparr>)"
  by (rule create_secure_subdomain_fails)

text \<open>
  C9, evaluated at a registry that holds \<^verbatim>\<open>acme123\<close> and another name. The revocation
  reads \<^verbatim>\<open>security_service.SecurityAudit\<close>, an attribute the instance does not have,
  before it deletes the entry: the result has \<^verbatim>\<open>success\<close> False, the entry stays and no
  audit event is appended.
\<close>

theorem revoke_subdomain_present:
  "revoke_subdomain t_log (str ''acme123'') (str ''10.0.0.5'')
       \<lparr>security = \<lparr>rate_limit_store = [], security_audit_log = []\<rparr>,
        active_subdomains = [(str ''acme123'', info), (str ''other9'', info')]\<rparr> =
     ([(''success'', VBool False),
       (''error'', VStr (str ''Revocation failed: '' @
          exc_message (AttributeError ''SecurityService'' ''SecurityAudit'')))],
      \<lparr>security = \<lparr>rate_limit_store = [], security_audit_log = []\<rparr>,
       active_subdomains = [(str ''acme123'', info), (str ''other9'', info')]\<rparr>)"
  by (simp add: revoke_subdomain_eq dict_contains_def dict_get_def)






section \<open>Floats\<close>










section \<open>The security report of the deployments\<close>















lemma float_of_quotient_no_zero_division:
  "b \<noteq> 0 \<Longrightarrow> float_of_quotient a b \<noteq> Inl ZeroDivisionError"
  by (simp add: float_of_quotient_def Let_def)

lemma py_round2_no_zero_division: "py_round2 x \<noteq> Inl ZeroDivisionError"
proof (cases x)
  case (Float m e)
  have "float_of_quotient
          (if 0 \<le> e then 100 * m * 2 ^ nat e
           else sgn m * round_half_even_div (100 * \<bar>m\<bar>) (2 ^ nat (- e))) 100 \<noteq>
        Inl ZeroDivisionError"
    by (rule float_of_quotient_no_zero_division) simp
  then show ?thesis
    unfolding Float py_round2.simps .
qed

lemma py_round_2_no_zero_division: "py_round_2 v \<noteq> Inl ZeroDivisionError"
proof (cases v)
  case (VFloat x)
  then show ?thesis
    using py_round2_no_zero_division [of x]
    by (cases "py_round2 x") (simp_all add: bind_err_def)
qed simp_all






end
